theory Spec2Isabelle
  imports Complex_Main "HOL-Library.Word" "HOL-Library.Log_Nat"
begin

unbundle bit_operations_syntax

section \<open>The score view of ConPianist (Source/ScoreComponent.cpp)\<close>

text \<open>
  The class \<open>LomseScoreComponent\<close> is glue between a GUI toolkit, a playback controller and
  a score-rendering engine. The embedding keeps the members of the class in a record, turns
  every member function into a function on that record, and makes the effects explicit:
  \<^item> every call into the rendering engine is appended to \<open>engine_calls\<close>, in program order;
  \<^item> \<open>repaint()\<close> increments \<open>repaints\<close>, \<open>MessageManager::callAsync\<close> appends to
    \<open>async_calls\<close>;
  \<^item> dereferencing a null \<open>std::unique_ptr\<close> is the error \<open>NullPointerDereference\<close>;
  \<^item> what the toolkit, the controller and the engine answer is read from parameters
    (the records \<open>PianoController\<close>, \<open>Settings\<close>, \<open>Juce\<close> and \<open>Lomse\<close>).
  C++ \<open>int\<close> values are mathematical integers (signed overflow is undefined in C++ and not
  modelled) and \<open>unsigned\<close> is a 32-bit word. A \<open>float\<close> is the real number it stands for,
  and every \<open>float\<close> operation rounds its exact result to the nearest single-precision
  value (\<open>float32\<close> below); \<open>int(x)\<close> truncates towards zero. The record keeps the scale
  factor as the exact product of the two settings it is derived from; \<open>m_scale\<close> being a
  \<open>float\<close> member, what the code reads from it is \<open>float32\<close> of that value. The objects the engine
  hands out through a presenter (interactor, document, page info, tempo line, marks) are
  taken to be valid, as the source dereferences them unconditionally; exceptions thrown
  inside the toolkit or the engine are not modelled.
\<close>

subsection \<open>Values\<close>

datatype error = NullPointerDereference

definition float_to_int :: "real \<Rightarrow> int" where
  "float_to_int x = (if x < 0 then \<lceil>x\<rceil> else \<lfloor>x\<rfloor>)"

text \<open>IEEE 754 single precision, round to nearest, ties to even: a significand of 24 bits,
  and the spacing of the subnormal numbers below \<open>2 ^ - 126\<close>. \<open>float_exponent x\<close> is the
  \<open>e\<close> with \<open>2 ^ e \<le> \<bar>x\<bar> < 2 ^ (e + 1)\<close>, and at least \<open>- 126\<close>. Results beyond the largest
  \<open>float\<close>, which are infinite in C++, and division by zero are not modelled.\<close>

definition pow2 :: "int \<Rightarrow> real" where
  "pow2 k = (if 0 \<le> k then 2 ^ nat k else 1 / 2 ^ nat (- k))"

definition float_exponent :: "real \<Rightarrow> int" where
  "float_exponent x =
     max (- 126)
       (if 1 \<le> \<bar>x\<bar> then bitlen \<lfloor>\<bar>x\<bar>\<rfloor> - 1 else - bitlen (\<lceil>1 / \<bar>x\<bar>\<rceil> - 1))"

definition round_half_even :: "real \<Rightarrow> int" where
  "round_half_even x =
     (if x - of_int \<lfloor>x\<rfloor> < 1 / 2 then \<lfloor>x\<rfloor>
      else if 1 / 2 < x - of_int \<lfloor>x\<rfloor> then \<lfloor>x\<rfloor> + 1
      else if even \<lfloor>x\<rfloor> then \<lfloor>x\<rfloor> else \<lfloor>x\<rfloor> + 1)"

definition float32 :: "real \<Rightarrow> real" where
  "float32 x =
     (if x = 0 then 0
      else of_int (round_half_even (x / pow2 (float_exponent x - 23)))
           * pow2 (float_exponent x - 23))"

text \<open>The conversion of an \<open>int\<close> to \<open>float\<close>, and the \<open>float\<close> operations \<open>*\<close>, \<open>+\<close> and \<open>/\<close>.\<close>

definition float_of_int :: "int \<Rightarrow> real" where
  "float_of_int n = float32 (of_int n)"

definition fmul :: "real \<Rightarrow> real \<Rightarrow> real" where
  "fmul a b = float32 (a * b)"

definition fadd :: "real \<Rightarrow> real \<Rightarrow> real" where
  "fadd a b = float32 (a + b)"

definition fdiv :: "real \<Rightarrow> real \<Rightarrow> real" where
  "fdiv a b = float32 (a / b)"

definition int_div :: "int \<Rightarrow> int \<Rightarrow> int" where
  "int_div a b = sgn a * sgn b * (\<bar>a\<bar> div \<bar>b\<bar>)"

text \<open>\<open>PianoController::Position\<close> and \<open>PianoController::Loop\<close>. The fields \<open>measure\<close>,
  \<open>begin\<close> and \<open>end\<close> carry a prefix, since the plain names are taken in Isabelle.\<close>

record Position =
  p_measure :: int
  p_beat :: int

record Loop =
  l_begin :: Position
  l_end :: Position

definition Position0 :: Position where
  "Position0 = \<lparr>p_measure = 0, p_beat = 0\<rparr>"

definition Loop0 :: Loop where
  "Loop0 = \<lparr>l_begin = Position0, l_end = Position0\<rparr>"

text \<open>What the component reads from its collaborators.\<close>

record PianoController =
  GetSongName :: string
  GetPosition :: Position
  GetLoop :: Loop
  GetLoopStart :: Position

record Settings =
  zoomUi :: real
  resourcesPath :: string

text \<open>A \<open>juce::File\<close> is its full path. \<open>withFileExtension name ext\<close> stands for
  \<open>File(name).withFileExtension(ext)\<close>, \<open>browseForFileToOpen\<close> for the URL the file chooser
  hands back (\<open>None\<close> when the dialog is cancelled).\<close>

record Juce =
  mainDisplayScale :: real
  getWidth :: int
  getHeight :: int
  withFileExtension :: "string \<Rightarrow> string \<Rightarrow> string"
  existsAsFile :: "string \<Rightarrow> bool"
  getSize :: "string \<Rightarrow> int"
  getLocalFile :: "string \<Rightarrow> string"
  browseForFileToOpen :: "string option"

text \<open>A score of a document: its id and its number of instruments. A presenter owns a
  document; \<open>content_item0\<close> is \<open>None\<close> when the first content item is not a score (the
  \<open>dynamic_cast\<close> gives null).\<close>

record ImoScore =
  get_id :: int
  get_num_instruments :: int

record Presenter =
  content_item0 :: "ImoScore option"

type_synonym FragmentMark = nat

text \<open>The answers of the rendering engine, and the values of its flag constants
  (\<open>lomse_events.h\<close> is not part of the repository).\<close>

record Lomse =
  open_document :: "string \<Rightarrow> Presenter option"
  new_document :: "Presenter option"
  get_timepos_for :: "ImoScore option \<Rightarrow> int \<Rightarrow> int \<Rightarrow> real"
  k_mouse_left :: "32 word"
  k_mouse_right :: "32 word"
  k_mouse_middle :: "32 word"
  k_kbd_shift :: "32 word"
  k_kbd_alt :: "32 word"
  k_kbd_ctrl :: "32 word"

record env =
  piano :: PianoController
  settings :: Settings
  juce :: Juce
  lomse :: Lomse

text \<open>\<open>juce::ModifierKeys\<close> as the six predicates the component asks, and the part of a
  \<open>juce::MouseEvent\<close> it reads.\<close>

record ModifierKeys =
  isLeftButtonDown :: bool
  isRightButtonDown :: bool
  isMiddleButtonDown :: bool
  isShiftDown :: bool
  isAltDown :: bool
  isCtrlDown :: bool

record MouseEvent =
  mods :: ModifierKeys
  getMouseDownScreenX :: int
  getScreenY :: int

record MouseWheelDetails =
  deltaY :: real

text \<open>An event of the engine: \<open>UpdateViewportEvent x y\<close> has type
  \<open>k_update_viewport_event\<close> and carries the new viewport origin.\<close>

datatype EventInfo = UpdateViewportEvent int int | OtherEvent

datatype Aspect = apPosition | apLoop | apSongName | apOther

datatype async_call = AsyncLoadScore string | AsyncUpdateSongState | AsyncLoadSong

subsection \<open>Calls into the rendering engine\<close>

text \<open>One constructor for each engine operation the component calls. The calls from
  \<open>GetInteractor\<close> on go through the presenter (\<open>m_presenter->...\<close>).\<close>

datatype mark_type = k_mark_open_rounded | k_mark_close_rounded

datatype engine_call =
    InitLibrary int
  | SetDefaultFontsPath string
  | SetNotifyCallback
  | OpenDocument string
  | NewDocument
  | GetInteractor
  | GetDocument
  | SetRenderingBuffer
  | AddEventHandler
  | DefineBeat
  | SetViewBackground nat nat nat
  | SetVisualTrackingMode
  | TempoLineSetColor nat nat nat nat
  | SwitchTask
  | InstrumentSetName int string
  | InstrumentSetAbbrev int string
  | InstrumentSetMeasuresNumbering int
  | SetPageWidth real
  | SetPageHeight real
  | SetTopMargin real
  | SetLeftMargin real
  | SetRightMargin real
  | SetBottomMargin real
  | SetBindingMargin real
  | OnDocumentUpdated
  | RedrawBitmap
  | RemoveMark "FragmentMark option"
  | GetTimeposFor int int
  | AddFragmentMarkAtNoteRest int real
  | MarkColor FragmentMark nat nat nat nat
  | MarkType FragmentMark mark_type
  | MarkXShift FragmentMark int
  | MoveTempoLine int int int
  | MoveTempoLineAndScrollIfNecessary int int int
  | NewViewport int int
  | OnMouseButtonDown int int "32 word"
  | OnMouseButtonUp int int "32 word"
  | OnMouseMove int int "32 word"

datatype graphics_call =
    DrawImage int int int int int int int int
  | SetColour nat nat nat
  | SetFont real
  | DrawFittedText string int int int int

subsection \<open>The component\<close>

text \<open>The members of \<open>LomseScoreComponent\<close>. \<open>m_image\<close> and \<open>m_rbuf_window\<close> keep the
  width and height of the bitmap; a null pointer is \<open>None\<close>.\<close>

record component =
  m_presenter :: "Presenter option"
  m_rbuf_window :: "(int \<times> int) option"
  m_image :: "(int \<times> int) option"
  m_scale :: real
  m_scoreId :: int
  loop :: Loop
  loopStart :: Position
  loopStartMark :: "FragmentMark option"
  loopEndMark :: "FragmentMark option"
  loadButton_visible :: bool
  loadButton_bounds :: "int \<times> int \<times> int \<times> int"
  engine_calls :: "engine_call list"
  repaints :: nat
  async_calls :: "async_call list"

definition call_engine :: "engine_call list \<Rightarrow> component \<Rightarrow> component" where
  "call_engine cs s = s\<lparr>engine_calls := engine_calls s @ cs\<rparr>"

definition repaint :: "component \<Rightarrow> component" where
  "repaint s = s\<lparr>repaints := Suc (repaints s)\<rparr>"

definition callAsync :: "async_call \<Rightarrow> component \<Rightarrow> component" where
  "callAsync c s = s\<lparr>async_calls := async_calls s @ [c]\<rparr>"

text \<open>The constructor, with \<open>BuildControls\<close> inlined: the load button is created visible.
  Registering the component as a listener of the controller and of the button has no
  effect on the members.\<close>

definition LomseScoreComponent :: "env \<Rightarrow> component" where
  "LomseScoreComponent e =
     (let scale = zoomUi (settings e) * mainDisplayScale (juce e);
          resolution = float_to_int (fmul (float_of_int 96) (float32 scale))
      in \<lparr>m_presenter = None, m_rbuf_window = None, m_image = None,
          m_scale = scale, m_scoreId = 0, loop = Loop0, loopStart = Position0,
          loopStartMark = None, loopEndMark = None,
          loadButton_visible = True, loadButton_bounds = (0, 0, 0, 0),
          engine_calls = [InitLibrary resolution,
                          SetDefaultFontsPath (resourcesPath (settings e) @ ''/fonts/''),
                          SetNotifyCallback],
          repaints = 0, async_calls = []\<rparr>)"

definition ScaledUnits :: "component \<Rightarrow> int \<Rightarrow> real" where
  "ScaledUnits s pixels = fdiv (fmul (float_of_int pixels) 26.5) (float32 (m_scale s))"

definition GetMouseFlags :: "env \<Rightarrow> MouseEvent \<Rightarrow> 32 word" where
  "GetMouseFlags e event =
     (let mouseFlags = 0;
          mouseFlags = (if isLeftButtonDown (mods event)
                        then mouseFlags OR k_mouse_left (lomse e) else mouseFlags);
          mouseFlags = (if isRightButtonDown (mods event)
                        then mouseFlags OR k_mouse_right (lomse e) else mouseFlags);
          mouseFlags = (if isMiddleButtonDown (mods event)
                        then mouseFlags OR k_mouse_middle (lomse e) else mouseFlags);
          mouseFlags = (if isShiftDown (mods event)
                        then mouseFlags OR k_kbd_shift (lomse e) else mouseFlags);
          mouseFlags = (if isAltDown (mods event)
                        then mouseFlags OR k_kbd_alt (lomse e) else mouseFlags);
          mouseFlags = (if isCtrlDown (mods event)
                        then mouseFlags OR k_kbd_ctrl (lomse e) else mouseFlags)
      in mouseFlags)"

definition LomseEvent :: "EventInfo \<Rightarrow> component \<Rightarrow> error + component" where
  "LomseEvent event s =
     (case event of
        UpdateViewportEvent x y \<Rightarrow>
          (case m_presenter s of
             None \<Rightarrow> Inl NullPointerDereference
           | Some p \<Rightarrow>
               (let OFFSET_CORRECTION = 19;
                    yPos = max (y - OFFSET_CORRECTION) 0
                in Inr (call_engine [GetInteractor, NewViewport 0 yPos] s)))
      | OtherEvent \<Rightarrow> Inr s)"

text \<open>The \<open>for\<close> loop of \<open>LoadDocument\<close> over the instruments of the score.\<close>

function configure_instruments :: "int \<Rightarrow> int \<Rightarrow> engine_call list" where
  "configure_instruments i n =
     (if i < n
      then [InstrumentSetName i [], InstrumentSetAbbrev i [], InstrumentSetMeasuresNumbering i]
           @ configure_instruments (i + 1) n
      else [])"
  by pat_completeness auto
termination
  by (relation "measure (\<lambda>(i, n). nat (n - i))") auto

declare configure_instruments.simps [simp del]

definition LoadDocument :: "env \<Rightarrow> string \<Rightarrow> component \<Rightarrow> error + component" where
  "LoadDocument e filename s =
     (let s = (if filename \<noteq> []
               then (call_engine [OpenDocument filename] s)
                      \<lparr>m_presenter := open_document (lomse e) filename\<rparr>
               else (call_engine [NewDocument] s)\<lparr>m_presenter := new_document (lomse e)\<rparr>)
      in case m_presenter s of
           None \<Rightarrow> Inl NullPointerDereference
         | Some p \<Rightarrow>
             (let s = call_engine [GetInteractor, SetRenderingBuffer, AddEventHandler,
                        DefineBeat, SetViewBackground 68 62 50, SetVisualTrackingMode,
                        TempoLineSetColor 15 90 235 128, SwitchTask, GetDocument] s;
                  s = (case content_item0 p of
                         None \<Rightarrow> s
                       | Some score \<Rightarrow>
                           call_engine (configure_instruments 0 (get_num_instruments score))
                             (s\<lparr>m_scoreId := get_id score\<rparr>))
              in Inr (s\<lparr>loop := Loop0\<rparr>)))"

text \<open>The mark the engine hands back for \<open>add_fragment_mark_at_note_rest\<close> is named by the
  number of engine calls made before it, so that every new mark is a new object. A time
  position of the engine (\<open>TimeUnits\<close>) is a real number.\<close>

definition UpdateABMarks :: "env \<Rightarrow> bool \<Rightarrow> component \<Rightarrow> error + component" where
  "UpdateABMarks e force s =
     (case m_presenter s of
        None \<Rightarrow> Inl NullPointerDereference
      | Some p \<Rightarrow>
          (let s = call_engine [GetInteractor, GetDocument] s;
               score = content_item0 p;
               curLoop = GetLoop (piano e);
               curLoopStart = GetLoopStart (piano e)
           in if \<not> (l_begin (loop s) = l_begin curLoop \<and> l_end (loop s) = l_end curLoop
                     \<and> loopStart s = curLoopStart) \<or> force
              then
                (let s = s\<lparr>loop := curLoop\<rparr>;
                     s = s\<lparr>loopStart := curLoopStart\<rparr>;
                     s = call_engine [RemoveMark (loopStartMark s)] s;
                     s = call_engine [RemoveMark (loopEndMark s)] s;
                     s = (if p_measure (l_begin (loop s)) > 0 \<or> p_measure (loopStart s) > 0
                          then
                            (let m = (if p_measure (l_begin (loop s)) > 0
                                      then p_measure (l_begin (loop s)) - 1
                                      else p_measure (loopStart s) - 1);
                                 b = (if p_measure (l_begin (loop s)) > 0
                                      then p_beat (l_begin (loop s)) - 1
                                      else p_beat (loopStart s) - 1);
                                 timepos = get_timepos_for (lomse e) score m b;
                                 s = call_engine [GetTimeposFor m b] s;
                                 mark = length (engine_calls s);
                                 s = (call_engine [AddFragmentMarkAtNoteRest (m_scoreId s) timepos] s)
                                       \<lparr>loopStartMark := Some mark\<rparr>
                             in call_engine [MarkColor mark 15 90 235 128,
                                  MarkType mark k_mark_open_rounded, MarkXShift mark (- 5)] s)
                          else s);
                     s = (if p_measure (l_end (loop s)) > 0
                          then
                            (let m = p_measure (l_end (loop s)) - 1;
                                 b = p_beat (l_end (loop s)) - 1;
                                 timepos = get_timepos_for (lomse e) score m b;
                                 s = call_engine [GetTimeposFor m b] s;
                                 timepos = timepos - 1;
                                 mark = length (engine_calls s);
                                 s = (call_engine [AddFragmentMarkAtNoteRest (m_scoreId s) timepos] s)
                                       \<lparr>loopEndMark := Some mark\<rparr>
                             in call_engine [MarkColor mark 15 90 235 128,
                                  MarkType mark k_mark_close_rounded] s)
                          else s)
                 in Inr s)
              else Inr s))"

definition UpdateTempoLine :: "env \<Rightarrow> bool \<Rightarrow> component \<Rightarrow> error + component" where
  "UpdateTempoLine e scroll s =
     (case m_presenter s of
        None \<Rightarrow> Inl NullPointerDereference
      | Some p \<Rightarrow>
          (let s = call_engine [GetInteractor] s;
               songPosition = GetPosition (piano e)
           in if scroll
              then Inr (call_engine [MoveTempoLineAndScrollIfNecessary (m_scoreId s)
                          (p_measure songPosition - 1) (p_beat songPosition - 1)] s)
              else Inr (call_engine [MoveTempoLine (m_scoreId s)
                          (p_measure songPosition - 1) (p_beat songPosition - 1)] s)))"

text \<open>\<open>PrepareImage\<close>: \<open>getWidth() * m_scale\<close> converts the \<open>int\<close> to \<open>float\<close> and multiplies
  in \<open>float\<close>, and \<open>int(...)\<close> truncates the rounded product. The new image has the size it
  was asked for, so \<open>m_image->getWidth()\<close> and \<open>m_image->getHeight()\<close> are \<open>w\<close> and \<open>h\<close>.\<close>

definition PrepareImage :: "env \<Rightarrow> component \<Rightarrow> error + component" where
  "PrepareImage e s =
     (let w = float_to_int (fmul (float_of_int (getWidth (juce e))) (float32 (m_scale s)));
          h = float_to_int (fmul (float_of_int (getHeight (juce e))) (float32 (m_scale s)));
          s = s\<lparr>m_image := Some (w, h)\<rparr>;
          s = s\<lparr>m_rbuf_window := Some (w, h)\<rparr>
      in case m_presenter s of
           None \<Rightarrow> Inl NullPointerDereference
         | Some p \<Rightarrow>
             (let s = call_engine [GetInteractor, GetDocument,
                        SetPageWidth (ScaledUnits s w), SetPageHeight (ScaledUnits s h),
                        SetTopMargin 500, SetLeftMargin 300, SetRightMargin 300,
                        SetBottomMargin 500, SetBindingMargin 0,
                        OnDocumentUpdated, RedrawBitmap] s
              in case UpdateABMarks e True s of
                   Inl err \<Rightarrow> Inl err
                 | Inr s \<Rightarrow> UpdateTempoLine e False s))"

definition resized :: "env \<Rightarrow> component \<Rightarrow> error + component" where
  "resized e s =
     (case (case m_presenter s of None \<Rightarrow> Inr s | Some p \<Rightarrow> PrepareImage e s) of
        Inl err \<Rightarrow> Inl err
      | Inr s \<Rightarrow>
          Inr (s\<lparr>loadButton_bounds := (int_div (getWidth (juce e)) 2 - 50, 30, 100, 30)\<rparr>))"

definition instruction_text :: string where
  "instruction_text =
     ''To automatically load score for a song put the score-file in MusicXML format near MIDI-file. ''
     @ ''The score-file should have the same name as MIDI-file and extension .musicxml or .xml.''"

text \<open>\<open>paint\<close> returns what it draws on the \<open>Graphics\<close> it is given.\<close>

definition paint :: "env \<Rightarrow> component \<Rightarrow> error + graphics_call list" where
  "paint e s =
     (case m_presenter s of
        Some p \<Rightarrow>
          (case m_image s of
             None \<Rightarrow> Inl NullPointerDereference
           | Some (iw, ih) \<Rightarrow>
               Inr [DrawImage 0 0 (getWidth (juce e)) (getHeight (juce e)) 0 0 iw ih])
      | None \<Rightarrow>
          Inr [SetColour 167 172 176, SetFont 16,
               DrawFittedText instruction_text 20 80
                 (getWidth (juce e) - 40) (getHeight (juce e) - 100)])"

text \<open>\<open>buttonClicked\<close>: location and title of the chooser only decorate the dialog; what the
  dialog returns is \<open>browseForFileToOpen\<close>.\<close>

definition buttonClicked :: "env \<Rightarrow> component \<Rightarrow> error + component" where
  "buttonClicked e s =
     (case browseForFileToOpen (juce e) of
        Some url \<Rightarrow> Inr (callAsync (AsyncLoadScore url) s)
      | None \<Rightarrow> Inr s)"

definition LoadScore_File :: "env \<Rightarrow> string \<Rightarrow> component \<Rightarrow> error + component" where
  "LoadScore_File e file s =
     (let s = s\<lparr>m_presenter := None\<rparr>
      in case LoadDocument e file s of
           Inl err \<Rightarrow> Inl err
         | Inr s \<Rightarrow>
             (case (case m_presenter s of None \<Rightarrow> Inr s | Some p \<Rightarrow> PrepareImage e s) of
                Inl err \<Rightarrow> Inl err
              | Inr s \<Rightarrow> Inr (repaint (s\<lparr>loadButton_visible := (m_presenter s = None)\<rparr>))))"

text \<open>\<open>LoadScore(const URL&)\<close> opens an input stream on the URL only to obtain the access
  token that iOS asks for, and loads the local file of the URL.\<close>

definition LoadScore_URL :: "env \<Rightarrow> string \<Rightarrow> component \<Rightarrow> error + component" where
  "LoadScore_URL e url s = LoadScore_File e (getLocalFile (juce e) url) s"

definition mouseDown :: "env \<Rightarrow> MouseEvent \<Rightarrow> component \<Rightarrow> error + component" where
  "mouseDown e event s =
     (case m_presenter s of
        None \<Rightarrow> Inr s
      | Some p \<Rightarrow>
          Inr (call_engine [GetInteractor,
                 OnMouseButtonDown (float_to_int (fmul (float_of_int (getMouseDownScreenX event)) (float32 (m_scale s))))
                   (float_to_int (fmul (float_of_int (getScreenY event)) (float32 (m_scale s))))
                   (GetMouseFlags e event)] s))"

definition mouseUp :: "env \<Rightarrow> MouseEvent \<Rightarrow> component \<Rightarrow> error + component" where
  "mouseUp e event s =
     (case m_presenter s of
        None \<Rightarrow> Inr s
      | Some p \<Rightarrow>
          Inr (call_engine [GetInteractor,
                 OnMouseButtonUp (float_to_int (fmul (float_of_int (getMouseDownScreenX event)) (float32 (m_scale s))))
                   (float_to_int (fmul (float_of_int (getScreenY event)) (float32 (m_scale s))))
                   (GetMouseFlags e event)] s))"

definition mouseMove :: "env \<Rightarrow> MouseEvent \<Rightarrow> component \<Rightarrow> error + component" where
  "mouseMove e event s =
     (case m_presenter s of
        None \<Rightarrow> Inr s
      | Some p \<Rightarrow>
          Inr (call_engine [GetInteractor,
                 OnMouseMove (float_to_int (fmul (float_of_int (getMouseDownScreenX event)) (float32 (m_scale s))))
                   (float_to_int (fmul (float_of_int (getScreenY event)) (float32 (m_scale s))))
                   (GetMouseFlags e event)] s))"

definition mouseDrag :: "env \<Rightarrow> MouseEvent \<Rightarrow> component \<Rightarrow> error + component" where
  "mouseDrag e event s = mouseMove e event s"

definition mouseWheelMove ::
  "env \<Rightarrow> MouseEvent \<Rightarrow> MouseWheelDetails \<Rightarrow> component \<Rightarrow> error + component" where
  "mouseWheelMove e event details s =
     (case m_presenter s of
        None \<Rightarrow> Inr s
      | Some p \<Rightarrow>
          (let scrollY = fmul (deltaY details) (float_of_int 256);
               x = float_to_int (fmul (float_of_int (getMouseDownScreenX event)) (float32 (m_scale s)));
               y0 = float_to_int (fmul (float_of_int (getScreenY event)) (float32 (m_scale s)));
               y1 = float_to_int (fmul (fadd (float_of_int (getScreenY event)) scrollY) (float32 (m_scale s)))
           in Inr (call_engine [GetInteractor,
                     OnMouseButtonDown x y0 (k_mouse_left (lomse e)),
                     OnMouseMove x y1 (k_mouse_left (lomse e)),
                     OnMouseButtonUp x y1 (k_mouse_left (lomse e))] s)))"

text \<open>\<open>PianoStateChanged\<close> does not read its channel argument.\<close>

definition PianoStateChanged :: "Aspect \<Rightarrow> component \<Rightarrow> error + component" where
  "PianoStateChanged aspect s =
     (if aspect = apPosition \<or> aspect = apLoop then Inr (callAsync AsyncUpdateSongState s)
      else if aspect = apSongName then Inr (callAsync AsyncLoadSong s)
      else Inr s)"

definition UpdateSongState :: "env \<Rightarrow> component \<Rightarrow> error + component" where
  "UpdateSongState e s =
     (case m_presenter s of
        None \<Rightarrow> Inr s
      | Some p \<Rightarrow>
          (case UpdateABMarks e False s of
             Inl err \<Rightarrow> Inl err
           | Inr s \<Rightarrow> UpdateTempoLine e True s))"

definition LoadSong :: "env \<Rightarrow> component \<Rightarrow> error + component" where
  "LoadSong e s =
     (let s = s\<lparr>m_presenter := None\<rparr>;
          file = withFileExtension (juce e) (GetSongName (piano e)) ''.musicxml'';
          file = (if \<not> existsAsFile (juce e) file
                  then withFileExtension (juce e) (GetSongName (piano e)) ''.xml''
                  else file)
      in if existsAsFile (juce e) file \<and> getSize (juce e) file > 0
         then LoadScore_File e file s
         else Inr (repaint (s\<lparr>loadButton_visible := (m_presenter s = None)\<rparr>)))"

subsection \<open>The message loop\<close>

text \<open>A callback posted with \<open>callAsync\<close> waits in \<open>async_calls\<close>; the message loop of the
  toolkit takes the oldest one out and runs it, after the handler that posted it has
  returned.\<close>

definition run_async :: "env \<Rightarrow> component \<Rightarrow> error + component" where
  "run_async e s =
     (case async_calls s of
        [] \<Rightarrow> Inr s
      | c # cs \<Rightarrow>
          (let s = s\<lparr>async_calls := cs\<rparr>
           in case c of
                AsyncLoadScore url \<Rightarrow> LoadScore_URL e url s
              | AsyncUpdateSongState \<Rightarrow> UpdateSongState e s
              | AsyncLoadSong \<Rightarrow> LoadSong e s))"

text \<open>Everything that can happen to the component once it is constructed: the toolkit
  calls a handler, the controller reports a change, the engine sends an event, or the
  message loop runs a posted callback. The surroundings may differ from one event to the
  next, so each step reads its own \<open>env\<close>. An event the engine sends while one of its
  operations runs is a step of its own.\<close>

datatype ui_event =
    Resized
  | MouseDown MouseEvent
  | MouseUp MouseEvent
  | MouseMove MouseEvent
  | MouseDrag MouseEvent
  | MouseWheelMove MouseEvent MouseWheelDetails
  | ButtonClicked
  | StateChanged Aspect
  | EngineEvent EventInfo
  | RunAsync

fun handle :: "env \<Rightarrow> ui_event \<Rightarrow> component \<Rightarrow> error + component" where
  "handle e Resized s = resized e s"
| "handle e (MouseDown ev) s = mouseDown e ev s"
| "handle e (MouseUp ev) s = mouseUp e ev s"
| "handle e (MouseMove ev) s = mouseMove e ev s"
| "handle e (MouseDrag ev) s = mouseDrag e ev s"
| "handle e (MouseWheelMove ev d) s = mouseWheelMove e ev d s"
| "handle e ButtonClicked s = buttonClicked e s"
| "handle e (StateChanged a) s = PianoStateChanged a s"
| "handle e (EngineEvent ev) s = LomseEvent ev s"
| "handle e RunAsync s = run_async e s"

inductive reachable :: "component \<Rightarrow> bool" where
  init: "reachable (LomseScoreComponent e)"
| step: "reachable s \<Longrightarrow> handle e ev s = Inr s' \<Longrightarrow> reachable s'"

subsection \<open>Notions used in the statements\<close>

text \<open>The score file \<open>LoadSong\<close> looks for, in the words of the specification: the song's
  name with the extension \<open>.musicxml\<close>, or with \<open>.xml\<close> when the former is no file. It is
  usable when it exists as a file and is not empty.\<close>

definition score_file :: "env \<Rightarrow> string" where
  "score_file e =
     (if existsAsFile (juce e) (withFileExtension (juce e) (GetSongName (piano e)) ''.musicxml'')
      then withFileExtension (juce e) (GetSongName (piano e)) ''.musicxml''
      else withFileExtension (juce e) (GetSongName (piano e)) ''.xml'')"

definition score_file_usable :: "env \<Rightarrow> bool" where
  "score_file_usable e \<longleftrightarrow>
     existsAsFile (juce e) (score_file e) \<and> 0 < getSize (juce e) (score_file e)"

text \<open>The bitwise OR of the flags of the buttons and modifier keys that are down, in the
  words of the specification.\<close>

definition or_all :: "32 word list \<Rightarrow> 32 word" where
  "or_all ws = foldr (OR) ws 0"

definition flags_down :: "env \<Rightarrow> ModifierKeys \<Rightarrow> 32 word list" where
  "flags_down e m =
     map snd (filter fst
       [(isLeftButtonDown m, k_mouse_left (lomse e)),
        (isRightButtonDown m, k_mouse_right (lomse e)),
        (isMiddleButtonDown m, k_mouse_middle (lomse e)),
        (isShiftDown m, k_kbd_shift (lomse e)),
        (isAltDown m, k_kbd_alt (lomse e)),
        (isCtrlDown m, k_kbd_ctrl (lomse e))])"

definition is_add_mark :: "engine_call \<Rightarrow> bool" where
  "is_add_mark c = (case c of AddFragmentMarkAtNoteRest i t \<Rightarrow> True | _ \<Rightarrow> False)"

text \<open>What holds of every component between two events: without a document the load
  button is visible, and with a document there is a bitmap to draw.\<close>

definition doc_inv :: "component \<Rightarrow> bool" where
  "doc_inv s \<longleftrightarrow> (m_presenter s = None \<longrightarrow> loadButton_visible s)
                \<and> (m_presenter s \<noteq> None \<longrightarrow> m_image s \<noteq> None)"

subsection \<open>Example surroundings and components\<close>

text \<open>A song \<open>/Midi/song.mid\<close> whose score \<open>/Midi/song.xml\<close> exists, on a display of scale 2,
  in a view of 800 by 600; the same with another zoom setting; and the same with no score
  file and a cancelled file chooser. \<open>example_loaded\<close> is a component with a document.\<close>

definition example_score :: ImoScore where
  "example_score = \<lparr>get_id = 7, get_num_instruments = 2\<rparr>"

definition example_env :: env where
  "example_env =
     \<lparr>piano = \<lparr>GetSongName = ''/Midi/song.mid'',
               GetPosition = \<lparr>p_measure = 3, p_beat = 2\<rparr>,
               GetLoop = \<lparr>l_begin = \<lparr>p_measure = 2, p_beat = 1\<rparr>,
                          l_end = \<lparr>p_measure = 5, p_beat = 1\<rparr>\<rparr>,
               GetLoopStart = Position0\<rparr>,
      settings = \<lparr>zoomUi = 1, resourcesPath = ''/res''\<rparr>,
      juce = \<lparr>mainDisplayScale = 2, getWidth = 800, getHeight = 600,
              withFileExtension = (\<lambda>name ext. takeWhile (\<lambda>c. c \<noteq> CHR ''.'') name @ ext),
              existsAsFile = (\<lambda>f. f = ''/Midi/song.xml''),
              getSize = (\<lambda>f. 1024),
              getLocalFile = (\<lambda>url. url),
              browseForFileToOpen = Some ''/Midi/other.musicxml''\<rparr>,
      lomse = \<lparr>open_document = (\<lambda>f. Some \<lparr>content_item0 = Some example_score\<rparr>),
               new_document = Some \<lparr>content_item0 = None\<rparr>,
               get_timepos_for = (\<lambda>score m b. of_int (64 * m + 16 * b)),
               k_mouse_left = 1, k_mouse_right = 2, k_mouse_middle = 4,
               k_kbd_shift = 8, k_kbd_alt = 16, k_kbd_ctrl = 32\<rparr>\<rparr>"

definition zoomed_env :: env where
  "zoomed_env = example_env\<lparr>settings := \<lparr>zoomUi = 3, resourcesPath = ''/res''\<rparr>\<rparr>"

definition no_score_env :: env where
  "no_score_env = example_env\<lparr>juce := (juce example_env)\<lparr>existsAsFile := (\<lambda>f. False),
                                                        browseForFileToOpen := None\<rparr>\<rparr>"

definition example_loaded :: component where
  "example_loaded =
     (LomseScoreComponent example_env)
       \<lparr>m_presenter := Some \<lparr>content_item0 = Some example_score\<rparr>,
        m_rbuf_window := Some (1600, 1200), m_image := Some (1600, 1200),
        m_scoreId := 7, loadButton_visible := False\<rparr>"

text \<open>The same component at the scale factor 0.7f, the \<open>float\<close> nearest to 0.7; and at a
  scale factor derived as 0.65, in a view of 180 by 100.\<close>

definition example_small :: component where
  "example_small = example_loaded\<lparr>m_image := None, m_scale := 11744051 / 16777216\<rparr>"

definition example_fine :: component where
  "example_fine = example_loaded\<lparr>m_image := None, m_scale := 13 / 20\<rparr>"

definition narrow_env :: env where
  "narrow_env = example_env\<lparr>juce := (juce example_env)\<lparr>getWidth := 180, getHeight := 100\<rparr>\<rparr>"

definition example_click :: MouseEvent where
  "example_click = \<lparr>mods = \<lparr>isLeftButtonDown = True, isRightButtonDown = False,
                             isMiddleButtonDown = False, isShiftDown = True,
                             isAltDown = False, isCtrlDown = False\<rparr>,
                    getMouseDownScreenX = 10, getScreenY = 20\<rparr>"

definition example_hover :: MouseEvent where
  "example_hover = \<lparr>mods = \<lparr>isLeftButtonDown = False, isRightButtonDown = False,
                             isMiddleButtonDown = False, isShiftDown = False,
                             isAltDown = False, isCtrlDown = False\<rparr>,
                    getMouseDownScreenX = 10, getScreenY = 20\<rparr>"

section \<open>Auxiliary facts\<close>

subsection \<open>Single-precision rounding\<close>

text \<open>Above the subnormal range \<open>float_exponent x\<close> is the binary exponent of \<open>x\<close>, and
  \<open>float32 x\<close>, a multiple of the spacing \<open>pow2 (float_exponent x - 23)\<close>, is no farther
  from \<open>x\<close> than half of that spacing.\<close>

lemma pow2_pos: "0 < pow2 k"
  by (simp add: pow2_def)

lemma pow2_nat: "0 \<le> k \<Longrightarrow> pow2 k = 2 ^ nat k"
  by (simp add: pow2_def)

lemma round_half_even_error: "\<bar>of_int (round_half_even r) - r\<bar> \<le> 1 / 2"
proof -
  have "of_int \<lfloor>r\<rfloor> \<le> r" "r < of_int \<lfloor>r\<rfloor> + 1" by linarith+
  then show ?thesis
    unfolding round_half_even_def by (auto simp: abs_le_iff)
qed

lemma float_exponent_big:
  assumes "1 \<le> \<bar>x\<bar>"
  shows "pow2 (float_exponent x) \<le> \<bar>x\<bar> \<and> \<bar>x\<bar> < pow2 (float_exponent x + 1)"
proof -
  let ?n = "\<lfloor>\<bar>x\<bar>\<rfloor>"
  have n: "0 < ?n" using assms by simp
  from bitlen_bounds[OF n] have b: "2 ^ nat (bitlen ?n - 1) \<le> ?n" "?n < 2 ^ nat (bitlen ?n)"
    by auto
  have b1: "1 \<le> bitlen ?n" using n by (simp add: bitlen_alt_def)
  then have e: "float_exponent x = bitlen ?n - 1"
    using assms by (simp add: float_exponent_def)
  have "(2::real) ^ nat (bitlen ?n - 1) \<le> of_int ?n"
    using b(1) by (metis of_int_le_iff of_int_numeral of_int_power)
  also have "\<dots> \<le> \<bar>x\<bar>" by simp
  finally have 1: "pow2 (float_exponent x) \<le> \<bar>x\<bar>"
    using b1 by (simp add: e pow2_nat)
  have "?n + 1 \<le> 2 ^ nat (bitlen ?n)" using b(2) by simp
  then have "of_int (?n + 1) \<le> (2::real) ^ nat (bitlen ?n)"
    by (metis of_int_le_iff of_int_numeral of_int_power)
  moreover have "\<bar>x\<bar> < of_int (?n + 1)" by linarith
  ultimately have "\<bar>x\<bar> < (2::real) ^ nat (bitlen ?n)" by linarith
  then have 2: "\<bar>x\<bar> < pow2 (float_exponent x + 1)"
    using b1 by (simp add: e pow2_nat)
  from 1 2 show ?thesis by blast
qed

lemma pow2_neg: "0 \<le> k \<Longrightarrow> pow2 (- k) = 1 / 2 ^ nat k"
  by (cases "k = 0") (simp_all add: pow2_def)

lemma float_exponent_small:
  assumes "pow2 (- 126) \<le> \<bar>x\<bar>" "\<bar>x\<bar> < 1"
  shows "pow2 (float_exponent x) \<le> \<bar>x\<bar> \<and> \<bar>x\<bar> < pow2 (float_exponent x + 1)"
proof -
  have x0: "0 < \<bar>x\<bar>" using assms(1) pow2_pos[of "- 126"] by linarith
  let ?y = "1 / \<bar>x\<bar>"
  let ?m = "\<lceil>?y\<rceil>"
  let ?k = "bitlen (?m - 1)"
  have y1: "1 < ?y" using x0 assms(2) by simp
  then have m: "0 < ?m - 1" by linarith
  from bitlen_bounds[OF m] have b: "2 ^ nat (?k - 1) \<le> ?m - 1" "?m - 1 < 2 ^ nat ?k"
    by auto
  have k1: "1 \<le> ?k" using m by (simp add: bitlen_alt_def)
  have "?y \<le> of_int ?m" by linarith
  also have "of_int ?m \<le> (2::real) ^ nat ?k"
  proof -
    have "?m \<le> 2 ^ nat ?k" using b(2) by simp
    then show ?thesis by (metis of_int_le_iff of_int_numeral of_int_power)
  qed
  finally have up: "?y \<le> 2 ^ nat ?k" .
  have "(2::real) ^ nat (?k - 1) \<le> of_int (?m - 1)"
    using b(1) by (metis of_int_le_iff of_int_numeral of_int_power)
  also have "of_int (?m - 1) < ?y" by linarith
  finally have lo: "2 ^ nat (?k - 1) < ?y" .
  have lower: "1 / 2 ^ nat ?k \<le> \<bar>x\<bar>"
    using up x0 by (simp add: field_simps)
  have upper: "\<bar>x\<bar> < 1 / 2 ^ nat (?k - 1)"
    using lo x0 by (simp add: field_simps)
  have "?k \<le> 126"
  proof (rule ccontr)
    assume "\<not> ?k \<le> 126"
    then have "126 \<le> nat (?k - 1)" by simp
    then have "(2::real) ^ 126 \<le> 2 ^ nat (?k - 1)"
      by (intro power_increasing) simp_all
    then have "1 / 2 ^ nat (?k - 1) \<le> 1 / (2::real) ^ 126"
      by (simp add: field_simps)
    with upper have "\<bar>x\<bar> < 1 / 2 ^ 126" by linarith
    with assms(1) show False by (simp add: pow2_def)
  qed
  then have e: "float_exponent x = - ?k"
    using assms(2) by (simp add: float_exponent_def)
  have 1: "pow2 (float_exponent x) \<le> \<bar>x\<bar>"
    using lower k1 by (simp add: e pow2_neg)
  have "pow2 (- ?k + 1) = 1 / 2 ^ nat (?k - 1)"
    using pow2_neg[of "?k - 1"] k1 by simp
  then have 2: "\<bar>x\<bar> < pow2 (float_exponent x + 1)"
    using upper by (simp add: e)
  from 1 2 show ?thesis by blast
qed

lemma float_exponent_bounds:
  assumes "pow2 (- 126) \<le> \<bar>x\<bar>"
  shows "pow2 (float_exponent x) \<le> \<bar>x\<bar> \<and> \<bar>x\<bar> < pow2 (float_exponent x + 1)"
  using assms float_exponent_big[of x] float_exponent_small[of x] by (cases "1 \<le> \<bar>x\<bar>") auto

lemma float32_error: "\<bar>float32 x - x\<bar> \<le> pow2 (float_exponent x - 23) / 2"
proof (cases "x = 0")
  case True
  then show ?thesis using pow2_pos[of "float_exponent x - 23"] by (simp add: float32_def)
next
  case False
  let ?q = "pow2 (float_exponent x - 23)"
  have q: "0 < ?q" by (rule pow2_pos)
  have "float32 x - x = (of_int (round_half_even (x / ?q)) - x / ?q) * ?q"
    using False q by (simp add: float32_def field_simps)
  then have "\<bar>float32 x - x\<bar> = \<bar>of_int (round_half_even (x / ?q)) - x / ?q\<bar> * ?q"
    using q by (simp add: abs_mult)
  also have "\<dots> \<le> (1 / 2) * ?q"
    using round_half_even_error[of "x / ?q"] q by (intro mult_right_mono) simp_all
  finally show ?thesis by simp
qed

subsection \<open>What the helper functions leave alone\<close>

text \<open>\<open>UpdateABMarks\<close>, \<open>UpdateTempoLine\<close> and \<open>PrepareImage\<close> return whenever a document is
  loaded, only add engine calls, and keep the presenter, the scale factor and the load
  button.\<close>

lemma call_engine_fields [simp]:
  "m_presenter (call_engine cs s) = m_presenter s"
  "m_rbuf_window (call_engine cs s) = m_rbuf_window s"
  "m_image (call_engine cs s) = m_image s"
  "m_scale (call_engine cs s) = m_scale s"
  "m_scoreId (call_engine cs s) = m_scoreId s"
  "loop (call_engine cs s) = loop s"
  "loopStart (call_engine cs s) = loopStart s"
  "loopStartMark (call_engine cs s) = loopStartMark s"
  "loopEndMark (call_engine cs s) = loopEndMark s"
  "loadButton_visible (call_engine cs s) = loadButton_visible s"
  "loadButton_bounds (call_engine cs s) = loadButton_bounds s"
  "engine_calls (call_engine cs s) = engine_calls s @ cs"
  "repaints (call_engine cs s) = repaints s"
  "async_calls (call_engine cs s) = async_calls s"
  by (simp_all add: call_engine_def)

lemma UpdateABMarks_frame:
  assumes "UpdateABMarks e force s = Inr s'"
  shows "m_presenter s' = m_presenter s" "m_scale s' = m_scale s" "m_image s' = m_image s"
    "m_rbuf_window s' = m_rbuf_window s" "loadButton_visible s' = loadButton_visible s"
    "loadButton_bounds s' = loadButton_bounds s"
    "async_calls s' = async_calls s" "repaints s' = repaints s" "m_scoreId s' = m_scoreId s"
  using assms
  by (auto simp: UpdateABMarks_def Let_def split: option.splits if_splits)

lemma UpdateABMarks_returns:
  "m_presenter s \<noteq> None \<Longrightarrow> \<exists>s'. UpdateABMarks e force s = Inr s'"
  by (auto simp: UpdateABMarks_def Let_def split: option.splits if_splits)

lemma UpdateTempoLine_frame:
  assumes "UpdateTempoLine e scroll s = Inr s'"
  shows "m_presenter s' = m_presenter s" "m_scale s' = m_scale s" "m_image s' = m_image s"
    "m_rbuf_window s' = m_rbuf_window s" "loadButton_visible s' = loadButton_visible s"
    "loadButton_bounds s' = loadButton_bounds s"
    "async_calls s' = async_calls s" "repaints s' = repaints s" "m_scoreId s' = m_scoreId s"
    "loop s' = loop s" "loopStart s' = loopStart s"
  using assms
  by (auto simp: UpdateTempoLine_def Let_def split: option.splits if_splits)

lemma UpdateTempoLine_returns:
  "m_presenter s \<noteq> None \<Longrightarrow> \<exists>s'. UpdateTempoLine e scroll s = Inr s'"
  by (auto simp: UpdateTempoLine_def Let_def split: option.splits if_splits)

lemma PrepareImage_Inr:
  assumes "PrepareImage e s = Inr s'"
  shows "\<exists>s1 s2. UpdateABMarks e True s1 = Inr s2 \<and> UpdateTempoLine e False s2 = Inr s'
    \<and> m_presenter s1 = m_presenter s \<and> m_scale s1 = m_scale s
    \<and> loadButton_visible s1 = loadButton_visible s \<and> loadButton_bounds s1 = loadButton_bounds s
    \<and> async_calls s1 = async_calls s \<and> repaints s1 = repaints s \<and> m_scoreId s1 = m_scoreId s
    \<and> m_image s1 = Some (float_to_int (fmul (float_of_int (getWidth (juce e))) (float32 (m_scale s))),
                        float_to_int (fmul (float_of_int (getHeight (juce e))) (float32 (m_scale s))))
    \<and> m_rbuf_window s1 = m_image s1
    \<and> (\<exists>cs. engine_calls s1 = engine_calls s @ cs)"
  using assms
  apply (clarsimp simp: PrepareImage_def Let_def split: option.splits sum.splits)
  apply (rule exI, rule exI, rule conjI, assumption)
  apply simp
  done

lemma PrepareImage_frame:
  assumes "PrepareImage e s = Inr s'"
  shows "m_presenter s' = m_presenter s" "m_scale s' = m_scale s"
    "loadButton_visible s' = loadButton_visible s"
    "loadButton_bounds s' = loadButton_bounds s"
    "async_calls s' = async_calls s" "repaints s' = repaints s" "m_scoreId s' = m_scoreId s"
    "m_image s' = Some (float_to_int (fmul (float_of_int (getWidth (juce e))) (float32 (m_scale s))),
                        float_to_int (fmul (float_of_int (getHeight (juce e))) (float32 (m_scale s))))"
    "m_rbuf_window s' = m_image s'"
proof -
  from assms obtain s1 s2 where h:
    "m_presenter s1 = m_presenter s" "m_scale s1 = m_scale s"
    "loadButton_visible s1 = loadButton_visible s" "loadButton_bounds s1 = loadButton_bounds s"
    "async_calls s1 = async_calls s" "repaints s1 = repaints s" "m_scoreId s1 = m_scoreId s"
    "m_image s1 = Some (float_to_int (fmul (float_of_int (getWidth (juce e))) (float32 (m_scale s))),
                        float_to_int (fmul (float_of_int (getHeight (juce e))) (float32 (m_scale s))))"
    "m_rbuf_window s1 = m_image s1"
    and ab: "UpdateABMarks e True s1 = Inr s2" and tl: "UpdateTempoLine e False s2 = Inr s'"
    using PrepareImage_Inr[OF assms] by blast
  note a = UpdateABMarks_frame[OF ab] and b = UpdateTempoLine_frame[OF tl]
  show "m_presenter s' = m_presenter s" by (simp add: a b h)
  show "m_scale s' = m_scale s" by (simp add: a b h)
  show "loadButton_visible s' = loadButton_visible s" by (simp add: a b h)
  show "loadButton_bounds s' = loadButton_bounds s" by (simp add: a b h)
  show "async_calls s' = async_calls s" by (simp add: a b h)
  show "repaints s' = repaints s" by (simp add: a b h)
  show "m_scoreId s' = m_scoreId s" by (simp add: a b h)
  show "m_image s' = Some (float_to_int (fmul (float_of_int (getWidth (juce e))) (float32 (m_scale s))),
                        float_to_int (fmul (float_of_int (getHeight (juce e))) (float32 (m_scale s))))"
    by (simp add: a b h)
  show "m_rbuf_window s' = m_image s'" by (simp add: a b h)
qed

lemma UpdateABMarks_calls:
  "UpdateABMarks e force s = Inr s' \<Longrightarrow> \<exists>cs. engine_calls s' = engine_calls s @ cs"
  by (auto simp: UpdateABMarks_def Let_def split: option.splits if_splits)

lemma UpdateTempoLine_calls:
  "UpdateTempoLine e scroll s = Inr s' \<Longrightarrow> \<exists>cs. engine_calls s' = engine_calls s @ cs"
  by (auto simp: UpdateTempoLine_def Let_def split: option.splits if_splits)

lemma PrepareImage_calls:
  assumes "PrepareImage e s = Inr s'"
  shows "\<exists>cs. engine_calls s' = engine_calls s @ cs"
proof -
  from PrepareImage_Inr[OF assms] obtain s1 s2 cs1 where
    "UpdateABMarks e True s1 = Inr s2" "UpdateTempoLine e False s2 = Inr s'"
    "engine_calls s1 = engine_calls s @ cs1"
    by blast
  then show ?thesis
    using UpdateABMarks_calls[of e True s1 s2] UpdateTempoLine_calls[of e False s2 s']
    by auto
qed

lemma PrepareImage_returns:
  assumes "m_presenter s \<noteq> None"
  shows "\<exists>s'. PrepareImage e s = Inr s'"
proof -
  obtain p where p: "m_presenter s = Some p" using assms by auto
  have marks_then_line: "\<exists>s3. (case UpdateABMarks e True s1 of
                  Inl err \<Rightarrow> Inl err
                | Inr s2 \<Rightarrow> UpdateTempoLine e False s2) = Inr s3"
    if "m_presenter s1 \<noteq> None" for s1
  proof -
    from that obtain s2 where s2: "UpdateABMarks e True s1 = Inr s2"
      using UpdateABMarks_returns by blast
    then have "m_presenter s2 \<noteq> None"
      using UpdateABMarks_frame(1)[OF s2] that by simp
    then obtain s3 where "UpdateTempoLine e False s2 = Inr s3"
      using UpdateTempoLine_returns by blast
    then show ?thesis using s2 by simp
  qed
  show ?thesis
    using p by (simp add: PrepareImage_def Let_def marks_then_line)
qed

subsection \<open>Loop marks and documents\<close>

lemma Loop_eq_iff: "(a :: Loop) = b \<longleftrightarrow> l_begin a = l_begin b \<and> l_end a = l_end b"
  by auto

lemma UpdateABMarks_changed:
  assumes "m_presenter s \<noteq> None"
    and "loop s \<noteq> GetLoop (piano e) \<or> loopStart s \<noteq> GetLoopStart (piano e) \<or> force"
  shows "\<exists>s' cs. UpdateABMarks e force s = Inr s'
     \<and> engine_calls s' = engine_calls s @ [GetInteractor, GetDocument,
          RemoveMark (loopStartMark s), RemoveMark (loopEndMark s)] @ cs
     \<and> loop s' = GetLoop (piano e) \<and> loopStart s' = GetLoopStart (piano e)
     \<and> (if 0 < p_measure (l_begin (GetLoop (piano e))) \<or> 0 < p_measure (GetLoopStart (piano e))
         then \<exists>m. loopStartMark s' = Some m \<and> MarkType m k_mark_open_rounded \<in> set cs
         else loopStartMark s' = loopStartMark s \<and> (\<forall>m. MarkType m k_mark_open_rounded \<notin> set cs))
     \<and> (if 0 < p_measure (l_end (GetLoop (piano e)))
         then \<exists>m. loopEndMark s' = Some m \<and> MarkType m k_mark_close_rounded \<in> set cs
         else loopEndMark s' = loopEndMark s \<and> (\<forall>m. MarkType m k_mark_close_rounded \<notin> set cs))
     \<and> length (filter is_add_mark cs) =
          (if 0 < p_measure (l_begin (GetLoop (piano e))) \<or> 0 < p_measure (GetLoopStart (piano e))
           then 1 else 0)
          + (if 0 < p_measure (l_end (GetLoop (piano e))) then 1 else 0)"
proof -
  obtain p where p: "m_presenter s = Some p" using assms(1) by auto
  have c: "\<not> (l_begin (loop s) = l_begin (GetLoop (piano e)) \<and> l_end (loop s) = l_end (GetLoop (piano e))
              \<and> loopStart s = GetLoopStart (piano e)) \<or> force"
    using assms(2) by (auto simp: Loop_eq_iff)
  show ?thesis
    using c by (simp add: UpdateABMarks_def Let_def p is_add_mark_def)
qed

lemma UpdateABMarks_unchanged:
  assumes "m_presenter s \<noteq> None"
    and "loop s = GetLoop (piano e)" "loopStart s = GetLoopStart (piano e)" "\<not> force"
  shows "UpdateABMarks e force s = Inr (call_engine [GetInteractor, GetDocument] s)"
  using assms by (auto simp: UpdateABMarks_def Let_def)

lemma LoadDocument_Inr:
  assumes "LoadDocument e filename s = Inr s'"
  shows "m_presenter s' \<noteq> None" "loop s' = Loop0" "m_scale s' = m_scale s"
    "m_presenter s' = (if filename \<noteq> [] then open_document (lomse e) filename
                       else new_document (lomse e))"
    "loadButton_visible s' = loadButton_visible s" "m_image s' = m_image s"
    "m_rbuf_window s' = m_rbuf_window s" "loopStart s' = loopStart s"
    "async_calls s' = async_calls s" "repaints s' = repaints s"
    "\<exists>cs. engine_calls s' = engine_calls s @
        (if filename \<noteq> [] then OpenDocument filename else NewDocument) # cs"
  using assms
  by (auto simp: LoadDocument_def Let_def split: option.splits if_splits)

lemma LoadDocument_returns:
  assumes "(if filename \<noteq> [] then open_document (lomse e) filename
            else new_document (lomse e)) \<noteq> None"
  shows "\<exists>s'. LoadDocument e filename s = Inr s'"
  using assms
  by (auto simp: LoadDocument_def Let_def split: option.splits if_splits)

subsection \<open>Resizing and loading\<close>

lemma resized_unloaded:
  "m_presenter s = None \<Longrightarrow>
   resized e s = Inr (s\<lparr>loadButton_bounds := (int_div (getWidth (juce e)) 2 - 50, 30, 100, 30)\<rparr>)"
  by (simp add: resized_def)

lemma resized_loaded:
  assumes "m_presenter s \<noteq> None"
  shows "\<exists>s'. resized e s = Inr s'
    \<and> m_image s' = Some (float_to_int (fmul (float_of_int (getWidth (juce e))) (float32 (m_scale s))),
                         float_to_int (fmul (float_of_int (getHeight (juce e))) (float32 (m_scale s))))
    \<and> m_rbuf_window s' = m_image s'"
proof -
  obtain s1 where s1: "PrepareImage e s = Inr s1"
    using PrepareImage_returns[OF assms] by blast
  show ?thesis
    using assms PrepareImage_frame(8,9)[OF s1] by (auto simp: resized_def s1)
qed

lemma resized_frame:
  assumes "resized e s = Inr s'"
  shows "m_presenter s' = m_presenter s" "m_scale s' = m_scale s"
    "loadButton_visible s' = loadButton_visible s"
proof -
  show "m_presenter s' = m_presenter s"
    using assms by (auto simp: resized_def split: option.splits sum.splits dest: PrepareImage_frame(1))
  show "m_scale s' = m_scale s"
    using assms by (auto simp: resized_def split: option.splits sum.splits dest: PrepareImage_frame(2))
  show "loadButton_visible s' = loadButton_visible s"
    using assms by (auto simp: resized_def split: option.splits sum.splits dest: PrepareImage_frame(3))
qed

lemma LoadScore_File_Inr:
  assumes "LoadScore_File e file s = Inr s'"
  shows "m_presenter s' \<noteq> None" "\<not> loadButton_visible s'"
    "m_presenter s' = (if file \<noteq> [] then open_document (lomse e) file else new_document (lomse e))"
    "m_scale s' = m_scale s"
    "\<exists>cs. engine_calls s' = engine_calls s @ (if file \<noteq> [] then OpenDocument file else NewDocument) # cs"
    "m_image s' \<noteq> None"
    "repaints s' = Suc (repaints s)"
proof -
  from assms obtain s1 where s1: "LoadDocument e file (s\<lparr>m_presenter := None\<rparr>) = Inr s1"
    by (auto simp: LoadScore_File_def Let_def split: sum.splits)
  note d = LoadDocument_Inr[OF s1]
  from assms s1 d(1) obtain s2 where s2: "PrepareImage e s1 = Inr s2"
    and s': "s' = repaint (s2\<lparr>loadButton_visible := (m_presenter s2 = None)\<rparr>)"
    by (auto simp: LoadScore_File_def Let_def split: sum.splits option.splits)
  note f = PrepareImage_frame[OF s2]
  show "m_presenter s' \<noteq> None" using d(1) f(1) by (simp add: s' repaint_def)
  show "\<not> loadButton_visible s'" using d(1) f(1) by (simp add: s' repaint_def)
  show "m_presenter s' = (if file \<noteq> [] then open_document (lomse e) file else new_document (lomse e))"
    using d(4) f(1) by (simp add: s' repaint_def)
  show "m_scale s' = m_scale s" using d(3) f(2) by (simp add: s' repaint_def)
  show "m_image s' \<noteq> None" using f(8) by (simp add: s' repaint_def)
  show "repaints s' = Suc (repaints s)" using d(10) f(6) by (simp add: s' repaint_def)
  from d(11) obtain cs1 where
    "engine_calls s1 = engine_calls s @ (if file \<noteq> [] then OpenDocument file else NewDocument) # cs1"
    by auto
  moreover from PrepareImage_calls[OF s2] obtain cs2 where "engine_calls s2 = engine_calls s1 @ cs2"
    by auto
  ultimately show "\<exists>cs. engine_calls s' = engine_calls s @ (if file \<noteq> [] then OpenDocument file else NewDocument) # cs"
    by (simp add: s' repaint_def)
qed

lemma LoadSong_usable:
  "score_file_usable e \<Longrightarrow>
   LoadSong e s = LoadScore_File e (score_file e) (s\<lparr>m_presenter := None\<rparr>)"
  by (auto simp: LoadSong_def Let_def score_file_def score_file_usable_def)

lemma LoadSong_unusable:
  "\<not> score_file_usable e \<Longrightarrow>
   LoadSong e s = Inr (repaint (s\<lparr>m_presenter := None, loadButton_visible := True\<rparr>))"
  by (auto simp: LoadSong_def Let_def score_file_def score_file_usable_def)

subsection \<open>The invariant of the reachable components\<close>

lemma LoadScore_File_inv: "LoadScore_File e file s = Inr s' \<Longrightarrow> doc_inv s'"
  using LoadScore_File_Inr(1,6)[of e "file" s s'] by (auto simp: doc_inv_def)

lemma LoadSong_inv: "LoadSong e s = Inr s' \<Longrightarrow> doc_inv s'"
  by (cases "score_file_usable e")
     (auto simp: LoadSong_usable LoadSong_unusable repaint_def doc_inv_def
           dest: LoadScore_File_inv)

lemma UpdateSongState_inv:
  assumes "UpdateSongState e s = Inr s'" "doc_inv s"
  shows "doc_inv s'"
proof (cases "m_presenter s")
  case None
  then show ?thesis using assms by (simp add: UpdateSongState_def)
next
  case (Some p)
  with assms(1) obtain s1 where a: "UpdateABMarks e False s = Inr s1"
    and b: "UpdateTempoLine e True s1 = Inr s'"
    by (auto simp: UpdateSongState_def split: sum.splits)
  show ?thesis
    using assms(2) UpdateABMarks_frame(1,3,5)[OF a] UpdateTempoLine_frame(1,3,5)[OF b]
    by (simp add: doc_inv_def)
qed

lemma resized_inv:
  assumes "resized e s = Inr s'" "doc_inv s"
  shows "doc_inv s'"
proof (cases "m_presenter s")
  case None
  then show ?thesis using assms by (auto simp: resized_unloaded doc_inv_def)
next
  case (Some p)
  then have "m_presenter s \<noteq> None" by simp
  from resized_loaded[OF this, of e] assms(1) resized_frame[OF assms(1)] assms(2)
  show ?thesis by (auto simp: doc_inv_def)
qed

lemma run_async_inv:
  assumes "run_async e s = Inr s'" "doc_inv s"
  shows "doc_inv s'"
proof (cases "async_calls s")
  case Nil
  then show ?thesis using assms by (simp add: run_async_def)
next
  case (Cons c cs)
  have i: "doc_inv (s\<lparr>async_calls := cs\<rparr>)" using assms(2) by (simp add: doc_inv_def)
  show ?thesis
  proof (cases c)
    case (AsyncLoadScore url)
    then show ?thesis
      using assms(1) Cons by (auto simp: run_async_def LoadScore_URL_def dest: LoadScore_File_inv)
  next
    case AsyncUpdateSongState
    then show ?thesis
      using assms(1) Cons i by (auto simp: run_async_def dest: UpdateSongState_inv)
  next
    case AsyncLoadSong
    then show ?thesis
      using assms(1) Cons by (auto simp: run_async_def dest: LoadSong_inv)
  qed
qed

lemma handle_inv:
  assumes "handle e ev s = Inr s'" "doc_inv s"
  shows "doc_inv s'"
proof (cases ev)
  case Resized
  then show ?thesis using assms by (auto dest: resized_inv)
next
  case (MouseDown x)
  then show ?thesis using assms
    by (auto simp: mouseDown_def doc_inv_def split: option.splits)
next
  case (MouseUp x)
  then show ?thesis using assms
    by (auto simp: mouseUp_def doc_inv_def split: option.splits)
next
  case (MouseMove x)
  then show ?thesis using assms
    by (auto simp: mouseMove_def doc_inv_def split: option.splits)
next
  case (MouseDrag x)
  then show ?thesis using assms
    by (auto simp: mouseDrag_def mouseMove_def doc_inv_def split: option.splits)
next
  case (MouseWheelMove x d)
  then show ?thesis using assms
    by (auto simp: mouseWheelMove_def Let_def doc_inv_def split: option.splits)
next
  case ButtonClicked
  then show ?thesis using assms
    by (auto simp: buttonClicked_def callAsync_def doc_inv_def split: option.splits)
next
  case (StateChanged a)
  then show ?thesis using assms
    by (auto simp: PianoStateChanged_def callAsync_def doc_inv_def split: if_splits)
next
  case (EngineEvent x)
  then show ?thesis using assms
    by (auto simp: LomseEvent_def Let_def doc_inv_def split: EventInfo.splits option.splits)
next
  case RunAsync
  then show ?thesis using assms by (auto dest: run_async_inv)
qed

lemma reachable_inv: "reachable s \<Longrightarrow> doc_inv s"
proof (induction rule: reachable.induct)
  case (init e)
  show ?case by (simp add: doc_inv_def LomseScoreComponent_def Let_def)
next
  case (step s e ev s')
  then show ?case by (auto dest: handle_inv)
qed

subsection \<open>The examples, evaluated\<close>

lemma float_examples:
  "float32 (7 / 10) = 11744051 / 16777216"
  "float32 16777217 = 16777216"
  "float32 16777219 = 16777220"
  "fmul (float_of_int 96) (float32 2) = 192"
  "fmul (float_of_int 800) (float32 2) = 1600"
  "fmul (float_of_int 600) (float32 2) = 1200"
  "fmul (float_of_int 800) (float32 (11744051 / 16777216)) = 560"
  "fmul (float_of_int 600) (float32 (11744051 / 16777216)) = 420"
  "float_to_int (800 * (11744051 / 16777216)) = 559"
  "float_to_int (fmul (float_of_int 180) (float32 (13 / 20))) = 116"
  "float_to_int (fmul (float_of_int 100) (float32 (13 / 20))) = 65"
  "float_to_int (fmul (float_of_int 180) (13 / 20)) = 117"
  by code_simp+

lemma example_env_simps:
  "zoomUi (settings example_env) = 1" "mainDisplayScale (juce example_env) = 2"
  "getWidth (juce example_env) = 800" "getHeight (juce example_env) = 600"
  "GetLoop (piano example_env) = \<lparr>l_begin = \<lparr>p_measure = 2, p_beat = 1\<rparr>,
                          l_end = \<lparr>p_measure = 5, p_beat = 1\<rparr>\<rparr>"
  "GetLoopStart (piano example_env) = Position0"
  "GetPosition (piano example_env) = \<lparr>p_measure = 3, p_beat = 2\<rparr>"
  "browseForFileToOpen (juce example_env) = Some ''/Midi/other.musicxml''"
  by (simp_all add: example_env_def)

lemma example_loaded_simps:
  "m_presenter example_loaded = Some \<lparr>content_item0 = Some example_score\<rparr>"
  "m_scale example_loaded = 2" "m_scoreId example_loaded = 7"
  "loop example_loaded = Loop0" "loopStart example_loaded = Position0"
  "loopStartMark example_loaded = None" "loopEndMark example_loaded = None"
  "engine_calls example_loaded = [InitLibrary 192, SetDefaultFontsPath ''/res/fonts/'', SetNotifyCallback]"
  by (simp_all add: example_loaded_def LomseScoreComponent_def Let_def example_env_def
      float_to_int_def float_examples)

lemma score_file_example: "score_file example_env = ''/Midi/song.xml''"
  by (simp add: score_file_def example_env_def)

lemma score_file_usable_example: "score_file_usable example_env"
  by (simp add: score_file_usable_def score_file_example) (simp add: example_env_def)

lemma score_file_unusable_example: "\<not> score_file_usable no_score_env"
  by (simp add: score_file_usable_def no_score_env_def)

subsection \<open>Which handlers test the presenter\<close>

text \<open>With no document loaded the guarded handlers return at once; and as long as the
  engine hands back a presenter for every document it is asked for, every handler but
  \<open>LomseEvent\<close> returns on every component.\<close>

lemma LoadScore_File_returns:
  assumes "(if file \<noteq> [] then open_document (lomse e) file else new_document (lomse e)) \<noteq> None"
  shows "\<exists>s'. LoadScore_File e file s = Inr s'"
proof -
  from LoadDocument_returns[OF assms, of "s\<lparr>m_presenter := None\<rparr>"]
  obtain s1 where s1: "LoadDocument e file (s\<lparr>m_presenter := None\<rparr>) = Inr s1" by blast
  from LoadDocument_Inr(1)[OF s1] PrepareImage_returns[of s1 e]
  obtain s2 where s2: "PrepareImage e s1 = Inr s2" by blast
  show ?thesis
    using s1 s2 LoadDocument_Inr(1)[OF s1]
    by (auto simp: LoadScore_File_def Let_def split: option.splits)
qed

lemma guarded_handlers_without_document:
  assumes "m_presenter s = None"
  shows "mouseDown e ev s = Inr s" "mouseUp e ev s = Inr s" "mouseMove e ev s = Inr s"
    "mouseDrag e ev s = Inr s" "mouseWheelMove e ev d s = Inr s" "UpdateSongState e s = Inr s"
    "\<exists>s'. resized e s = Inr s' \<and> engine_calls s' = engine_calls s"
    "\<exists>g. paint e s = Inr g"
  using assms
  by (simp_all add: mouseDown_def mouseUp_def mouseMove_def mouseDrag_def mouseWheelMove_def
      UpdateSongState_def resized_def paint_def)

lemma UpdateSongState_returns: "\<exists>s'. UpdateSongState e s = Inr s'"
proof (cases "m_presenter s")
  case None
  then show ?thesis by (simp add: UpdateSongState_def)
next
  case (Some p)
  then have "m_presenter s \<noteq> None" by simp
  from UpdateABMarks_returns[OF this]
  obtain s1 where s1: "UpdateABMarks e False s = Inr s1" by blast
  from UpdateABMarks_frame(1)[OF s1] Some have "m_presenter s1 \<noteq> None" by simp
  from UpdateTempoLine_returns[OF this]
  obtain s2 where "UpdateTempoLine e True s1 = Inr s2" by blast
  then show ?thesis using Some s1 by (simp add: UpdateSongState_def)
qed

lemma resized_returns: "\<exists>s'. resized e s = Inr s'"
proof (cases "m_presenter s")
  case None
  then show ?thesis by (simp add: resized_unloaded)
next
  case (Some p)
  then have "m_presenter s \<noteq> None" by simp
  from resized_loaded[OF this] show ?thesis by blast
qed

lemma LoadSong_returns:
  assumes "\<forall>f. open_document (lomse e) f \<noteq> None" "new_document (lomse e) \<noteq> None"
  shows "\<exists>s'. LoadSong e s = Inr s'"
proof (cases "score_file_usable e")
  case True
  from assms have "(if score_file e \<noteq> [] then open_document (lomse e) (score_file e)
                    else new_document (lomse e)) \<noteq> None"
    by simp
  from LoadScore_File_returns[OF this] show ?thesis by (simp add: LoadSong_usable[OF True])
next
  case False
  then show ?thesis by (simp add: LoadSong_unusable)
qed

lemma run_async_returns:
  assumes "\<forall>f. open_document (lomse e) f \<noteq> None" "new_document (lomse e) \<noteq> None"
  shows "\<exists>s'. run_async e s = Inr s'"
proof (cases "async_calls s")
  case Nil
  then show ?thesis by (simp add: run_async_def)
next
  case (Cons c cs)
  show ?thesis
  proof (cases c)
    case (AsyncLoadScore url)
    from assms have "(if getLocalFile (juce e) url \<noteq> []
                      then open_document (lomse e) (getLocalFile (juce e) url)
                      else new_document (lomse e)) \<noteq> None"
      by simp
    from LoadScore_File_returns[OF this] show ?thesis
      using Cons AsyncLoadScore by (simp add: run_async_def LoadScore_URL_def)
  next
    case AsyncUpdateSongState
    then show ?thesis
      using Cons UpdateSongState_returns by (simp add: run_async_def)
  next
    case AsyncLoadSong
    then show ?thesis
      using Cons LoadSong_returns[OF assms] by (simp add: run_async_def)
  qed
qed

lemma handlers_other_than_LomseEvent_return:
  assumes "\<forall>f. open_document (lomse e) f \<noteq> None" "new_document (lomse e) \<noteq> None"
    and "\<forall>x. ev \<noteq> EngineEvent x"
  shows "\<exists>s'. handle e ev s = Inr s'"
proof (cases ev)
  case Resized
  then show ?thesis using resized_returns by simp
next
  case (MouseDown x)
  then show ?thesis by (simp add: mouseDown_def split: option.splits)
next
  case (MouseUp x)
  then show ?thesis by (simp add: mouseUp_def split: option.splits)
next
  case (MouseMove x)
  then show ?thesis by (simp add: mouseMove_def split: option.splits)
next
  case (MouseDrag x)
  then show ?thesis by (simp add: mouseDrag_def mouseMove_def split: option.splits)
next
  case (MouseWheelMove x d)
  then show ?thesis by (simp add: mouseWheelMove_def Let_def split: option.splits)
next
  case ButtonClicked
  then show ?thesis by (simp add: buttonClicked_def split: option.splits)
next
  case (StateChanged a)
  then show ?thesis by (simp add: PianoStateChanged_def)
next
  case (EngineEvent x)
  then show ?thesis using assms(3) by simp
next
  case RunAsync
  then show ?thesis using run_async_returns[OF assms(1,2)] by simp
qed

section \<open>The claims\<close>

text \<open>
  C1. For every song name the controller reports, \<open>LoadSong\<close> looks for the score under the
  song's name with the extension \<open>.musicxml\<close> and, when that is no file, with \<open>.xml\<close>; it
  loads the score, through \<open>LoadScore\<close> and \<open>LoadDocument\<close>, if and only if the file it
  arrives at exists as a file and has a size above zero. When the file is usable \<open>LoadSong\<close>
  is \<open>LoadScore\<close> of that file, and it ends with the presenter the engine gives for the
  file; when it is not, \<open>LoadSong\<close> returns with no presenter and no engine call. So after
  \<open>LoadSong\<close> a document is loaded, and the engine was asked to open the file, exactly when
  the file is usable.
\<close>

theorem LoadSong_locates_score:
  "(score_file_usable e \<longrightarrow>
      LoadSong e s = LoadScore_File e (score_file e) (s\<lparr>m_presenter := None\<rparr>))
   \<and> (score_file_usable e
        \<and> (if score_file e \<noteq> [] then open_document (lomse e) (score_file e)
            else new_document (lomse e)) \<noteq> None \<longrightarrow>
        (\<exists>s'. LoadSong e s = Inr s'
           \<and> m_presenter s' = (if score_file e \<noteq> [] then open_document (lomse e) (score_file e)
                                else new_document (lomse e))))
   \<and> (\<not> score_file_usable e \<longrightarrow>
        (\<exists>s'. LoadSong e s = Inr s' \<and> m_presenter s' = None \<and> engine_calls s' = engine_calls s))
   \<and> (\<forall>s'. LoadSong e s = Inr s' \<longrightarrow>
        (m_presenter s' \<noteq> None \<longleftrightarrow> score_file_usable e)
        \<and> ((\<exists>cs. engine_calls s' = engine_calls s @
               (if score_file e \<noteq> [] then OpenDocument (score_file e) else NewDocument) # cs)
             \<longleftrightarrow> score_file_usable e))"
proof (cases "score_file_usable e")
  case True
  have "(if score_file e \<noteq> [] then open_document (lomse e) (score_file e)
            else new_document (lomse e)) \<noteq> None \<longrightarrow>
        (\<exists>s'. LoadSong e s = Inr s'
           \<and> m_presenter s' = (if score_file e \<noteq> [] then open_document (lomse e) (score_file e)
                                else new_document (lomse e)))"
    using LoadScore_File_returns[of "score_file e" e "s\<lparr>m_presenter := None\<rparr>"]
      LoadScore_File_Inr(3)[of e "score_file e" "s\<lparr>m_presenter := None\<rparr>"]
    by (auto simp: LoadSong_usable[OF True])
  then show ?thesis
    using True LoadScore_File_Inr(1,5)[of e "score_file e" "s\<lparr>m_presenter := None\<rparr>"]
    by (auto simp: LoadSong_usable)
next
  case False
  then show ?thesis
    by (auto simp: LoadSong_unusable repaint_def)
qed

theorem LoadSong_locates_score_witness:
  "score_file example_env = ''/Midi/song.xml''
   \<and> score_file_usable example_env
   \<and> LoadSong example_env (LomseScoreComponent example_env)
       = LoadScore_File example_env ''/Midi/song.xml''
           ((LomseScoreComponent example_env)\<lparr>m_presenter := None\<rparr>)
   \<and> map_sum id m_presenter (LoadSong example_env (LomseScoreComponent example_env))
       = Inr (Some \<lparr>content_item0 = Some example_score\<rparr>)
   \<and> \<not> score_file_usable no_score_env
   \<and> map_sum id m_presenter (LoadSong no_score_env example_loaded) = Inr None
   \<and> map_sum id engine_calls (LoadSong no_score_env example_loaded)
       = Inr (engine_calls example_loaded)"
proof -
  note u = score_file_usable_example and f = score_file_example
    and n = score_file_unusable_example
  have o: "(if score_file example_env \<noteq> [] then open_document (lomse example_env) (score_file example_env)
            else new_document (lomse example_env)) = Some \<lparr>content_item0 = Some example_score\<rparr>"
    by (simp add: f) (simp add: example_env_def)
  note t = LoadSong_locates_score [of example_env "LomseScoreComponent example_env"]
  from t u have a: "LoadSong example_env (LomseScoreComponent example_env)
       = LoadScore_File example_env ''/Midi/song.xml''
           ((LomseScoreComponent example_env)\<lparr>m_presenter := None\<rparr>)"
    by (simp add: f)
  from o have o': "(if score_file example_env \<noteq> []
             then open_document (lomse example_env) (score_file example_env)
             else new_document (lomse example_env)) \<noteq> None"
    by simp
  from t u o' have "\<exists>s'. LoadSong example_env (LomseScoreComponent example_env) = Inr s'
           \<and> m_presenter s' = (if score_file example_env \<noteq> []
                                then open_document (lomse example_env) (score_file example_env)
                                else new_document (lomse example_env))"
    by blast
  then obtain s' where s': "LoadSong example_env (LomseScoreComponent example_env) = Inr s'"
    "m_presenter s' = Some \<lparr>content_item0 = Some example_score\<rparr>"
    unfolding o by blast
  from LoadSong_locates_score [of no_score_env example_loaded] n
  obtain s'' where s'': "LoadSong no_score_env example_loaded = Inr s''"
    "m_presenter s'' = None" "engine_calls s'' = engine_calls example_loaded"
    by blast
  have c: "map_sum id m_presenter (LoadSong example_env (LomseScoreComponent example_env))
       = Inr (Some \<lparr>content_item0 = Some example_score\<rparr>)"
    using s' by simp
  have d: "map_sum id m_presenter (LoadSong no_score_env example_loaded) = Inr None"
    "map_sum id engine_calls (LoadSong no_score_env example_loaded)
       = Inr (engine_calls example_loaded)"
    using s'' by simp_all
  from u f n a c d show ?thesis by blast
qed

text \<open>
  C2. Whenever no document is loaded, \<open>paint\<close> draws the instructional message, and the
  load button is visible: this holds of every component reachable from the constructor by
  the handlers. In particular, when \<open>LoadSong\<close> finds no usable score file it returns, without
  an error and without an engine call, a component with no document and a visible load
  button, and asks for a repaint. Painting never fails on a reachable component. Conversely
  a load that succeeds (it does whenever the engine hands back a presenter) leaves a
  document loaded and the load button invisible.
\<close>

theorem no_document_shows_message_and_button:
  "(m_presenter s = None \<longrightarrow>
      paint e s = Inr [SetColour 167 172 176, SetFont 16,
                      DrawFittedText instruction_text 20 80
                        (getWidth (juce e) - 40) (getHeight (juce e) - 100)])
   \<and> (reachable s \<and> m_presenter s = None \<longrightarrow> loadButton_visible s)
   \<and> (reachable s \<longrightarrow> (\<exists>g. paint e s = Inr g))
   \<and> (\<not> score_file_usable e \<longrightarrow>
        (\<exists>s'. LoadSong e s = Inr s' \<and> m_presenter s' = None \<and> loadButton_visible s'
              \<and> repaints s' = Suc (repaints s) \<and> engine_calls s' = engine_calls s))
   \<and> (\<forall>s'. LoadScore_File e file s = Inr s' \<longrightarrow>
        m_presenter s' \<noteq> None \<and> \<not> loadButton_visible s')
   \<and> ((if file \<noteq> [] then open_document (lomse e) file else new_document (lomse e)) \<noteq> None \<longrightarrow>
        (\<exists>s'. LoadScore_File e file s = Inr s'))
   \<and> (\<forall>s'. LoadSong e s = Inr s' \<and> m_presenter s' \<noteq> None \<longrightarrow> \<not> loadButton_visible s')"
proof -
  have 1: "m_presenter s = None \<longrightarrow>
      paint e s = Inr [SetColour 167 172 176, SetFont 16,
                      DrawFittedText instruction_text 20 80
                        (getWidth (juce e) - 40) (getHeight (juce e) - 100)]"
    by (simp add: paint_def)
  have 2: "reachable s \<and> m_presenter s = None \<longrightarrow> loadButton_visible s"
    using reachable_inv[of s] by (simp add: doc_inv_def)
  have 3: "reachable s \<longrightarrow> (\<exists>g. paint e s = Inr g)"
    using reachable_inv[of s] by (auto simp: doc_inv_def paint_def split: option.splits)
  have 4: "\<not> score_file_usable e \<longrightarrow>
        (\<exists>s'. LoadSong e s = Inr s' \<and> m_presenter s' = None \<and> loadButton_visible s'
              \<and> repaints s' = Suc (repaints s) \<and> engine_calls s' = engine_calls s)"
    by (simp add: LoadSong_unusable repaint_def)
  have 5: "\<forall>s'. LoadScore_File e file s = Inr s' \<longrightarrow>
        m_presenter s' \<noteq> None \<and> \<not> loadButton_visible s'"
    using LoadScore_File_Inr(1,2) by blast
  have 6: "\<forall>s'. LoadSong e s = Inr s' \<and> m_presenter s' \<noteq> None \<longrightarrow> \<not> loadButton_visible s'"
    using LoadScore_File_Inr(2)[of e "score_file e" "s\<lparr>m_presenter := None\<rparr>"]
    by (cases "score_file_usable e") (auto simp: LoadSong_usable LoadSong_unusable repaint_def)
  have 7: "(if file \<noteq> [] then open_document (lomse e) file else new_document (lomse e)) \<noteq> None \<longrightarrow>
        (\<exists>s'. LoadScore_File e file s = Inr s')"
    using LoadScore_File_returns[of "file" e s] by blast
  from 1 2 3 4 5 6 7 show ?thesis by blast
qed

theorem no_document_shows_message_and_button_witness:
  "m_presenter (LomseScoreComponent example_env) = None
   \<and> reachable (LomseScoreComponent example_env)
   \<and> loadButton_visible (LomseScoreComponent example_env)
   \<and> paint example_env (LomseScoreComponent example_env)
       = Inr [SetColour 167 172 176, SetFont 16, DrawFittedText instruction_text 20 80 760 500]
   \<and> \<not> score_file_usable no_score_env
   \<and> map_sum id m_presenter (LoadSong no_score_env example_loaded) = Inr None
   \<and> map_sum id loadButton_visible (LoadSong no_score_env example_loaded) = Inr True
   \<and> open_document (lomse example_env) ''/Midi/song.xml'' \<noteq> None
   \<and> map_sum id loadButton_visible
        (LoadScore_File example_env ''/Midi/song.xml'' (LomseScoreComponent example_env))
       = Inr False"
proof -
  have a: "m_presenter (LomseScoreComponent example_env) = None"
    by (simp add: LomseScoreComponent_def Let_def)
  have r: "reachable (LomseScoreComponent example_env)" by (rule reachable.init)
  note t = no_document_shows_message_and_button
    [of "LomseScoreComponent example_env" example_env "''/Midi/song.xml''"]
  from t a have p: "paint example_env (LomseScoreComponent example_env)
       = Inr [SetColour 167 172 176, SetFont 16, DrawFittedText instruction_text 20 80 760 500]"
    by (simp add: example_env_simps)
  from t a r have v: "loadButton_visible (LomseScoreComponent example_env)" by blast
  note n = score_file_unusable_example
  from no_document_shows_message_and_button [of example_loaded no_score_env "[]"] n
  obtain s' where s': "LoadSong no_score_env example_loaded = Inr s'" "m_presenter s' = None"
    "loadButton_visible s'"
    by blast
  have o: "open_document (lomse example_env) ''/Midi/song.xml'' \<noteq> None"
    by (simp add: example_env_def)
  then have "(if ''/Midi/song.xml'' \<noteq> [] then open_document (lomse example_env) ''/Midi/song.xml''
              else new_document (lomse example_env)) \<noteq> None"
    by simp
  with t obtain s'' where s'':
    "LoadScore_File example_env ''/Midi/song.xml'' (LomseScoreComponent example_env) = Inr s''"
    by blast
  with t have w: "\<not> loadButton_visible s''" by blast
  have c: "map_sum id m_presenter (LoadSong no_score_env example_loaded) = Inr None"
    "map_sum id loadButton_visible (LoadSong no_score_env example_loaded) = Inr True"
    using s' by simp_all
  have d: "map_sum id loadButton_visible
        (LoadScore_File example_env ''/Midi/song.xml'' (LomseScoreComponent example_env))
       = Inr False"
    using s'' w by simp
  from a r v p n c o d show ?thesis by blast
qed

text \<open>
  C3. The claim is that every path into the engine first checks that a document is loaded.
  \<open>LomseEvent\<close> does not: on an update-viewport event it dereferences \<open>m_presenter\<close> without
  the test its sibling handlers make (\<open>guarded_handlers_without_document\<close>); as long as the
  engine hands back a presenter for every document it is asked for, it is the one handler
  that can fail so (\<open>handlers_other_than_LomseEvent_return\<close>). On a newly constructed
  component, which has no document, the event ends in a null dereference.
\<close>

theorem LomseEvent_without_document:
  "m_presenter (LomseScoreComponent example_env) = None
   \<and> LomseEvent (UpdateViewportEvent 0 100) (LomseScoreComponent example_env)
       = Inl NullPointerDereference"
  by (simp add: LomseEvent_def LomseScoreComponent_def Let_def)

text \<open>
  C4, as amended. The scale factor is computed in the constructor, as the zoom setting times
  the scale of the main display. A resize always returns and does not recompute the factor:
  it keeps the stored value, whatever the settings and the display are by then.
\<close>

theorem scale_set_at_construction_only:
  "m_scale (LomseScoreComponent e) = zoomUi (settings e) * mainDisplayScale (juce e)
   \<and> (\<exists>s'. resized e' s = Inr s' \<and> m_scale s' = m_scale s)"
proof -
  have "\<exists>s'. resized e' s = Inr s'"
  proof (cases "m_presenter s")
    case None
    then show ?thesis by (simp add: resized_unloaded)
  next
    case (Some p)
    then have "m_presenter s \<noteq> None" by simp
    from resized_loaded[OF this] show ?thesis by blast
  qed
  then obtain s' where "resized e' s = Inr s'" by blast
  with resized_frame(2)[OF this] show ?thesis
    by (auto simp: LomseScoreComponent_def Let_def)
qed

theorem scale_set_at_construction_only_witness:
  "m_scale (LomseScoreComponent example_env) = 2
   \<and> map_sum id m_scale (resized zoomed_env example_loaded) = Inr 2"
proof -
  note t = scale_set_at_construction_only [of example_env zoomed_env example_loaded]
  from t have a: "m_scale (LomseScoreComponent example_env) = 2"
    by (simp add: example_env_simps)
  from t obtain s' where "resized zoomed_env example_loaded = Inr s'"
    "m_scale s' = m_scale example_loaded"
    by blast
  then have b: "map_sum id m_scale (resized zoomed_env example_loaded) = Inr 2"
    by (simp add: example_loaded_simps)
  from a b show ?thesis by blast
qed

text \<open>
  C4, as stated, fails: a component constructed at zoom 1 on a display of scale 2 and resized
  after the zoom setting has become 3 still has the scale factor 2, not 6.
\<close>

theorem resized_does_not_recompute_scale_counterexample:
  "map_sum id m_scale (resized zoomed_env (LomseScoreComponent example_env)) = Inr 2
   \<and> zoomUi (settings zoomed_env) * mainDisplayScale (juce zoomed_env) = 6
   \<and> map_sum id m_scale (resized zoomed_env (LomseScoreComponent example_env))
       \<noteq> Inr (zoomUi (settings zoomed_env) * mainDisplayScale (juce zoomed_env))"
proof -
  have a: "m_presenter (LomseScoreComponent example_env) = None"
    by (simp add: LomseScoreComponent_def Let_def)
  have b: "m_scale (LomseScoreComponent example_env) = 2"
    by (simp add: LomseScoreComponent_def Let_def example_env_def)
  have c: "zoomUi (settings zoomed_env) * mainDisplayScale (juce zoomed_env) = 6"
    by (simp add: zoomed_env_def example_env_def)
  show ?thesis
    by (simp add: resized_unloaded[OF a] b c)
qed

text \<open>
  C5, as amended. On every resize while a document is loaded, a new bitmap is allocated and
  attached to the rendering buffer, sized to the view in pixels: \<open>int(getWidth() * m_scale)\<close>
  by \<open>int(getHeight() * m_scale)\<close>, the products taken in \<open>float\<close> arithmetic as the source
  takes them. While no document is loaded a resize leaves the bitmap and the rendering
  buffer as they are and calls no engine operation.
\<close>

theorem resized_recreates_bitmap_when_loaded:
  "(m_presenter s \<noteq> None \<longrightarrow>
      (\<exists>s'. resized e s = Inr s'
         \<and> m_image s' = Some (float_to_int (fmul (float_of_int (getWidth (juce e))) (float32 (m_scale s))),
                              float_to_int (fmul (float_of_int (getHeight (juce e))) (float32 (m_scale s))))
         \<and> m_rbuf_window s' = m_image s'))
   \<and> (m_presenter s = None \<longrightarrow>
        (\<exists>s'. resized e s = Inr s' \<and> m_image s' = m_image s
           \<and> m_rbuf_window s' = m_rbuf_window s \<and> engine_calls s' = engine_calls s))"
  using resized_loaded[of s e] by (auto simp: resized_unloaded)

theorem resized_recreates_bitmap_when_loaded_witness:
  "m_presenter example_loaded \<noteq> None
   \<and> map_sum id m_image (resized example_env (example_loaded\<lparr>m_image := None\<rparr>))
       = Inr (Some (1600, 1200))
   \<and> map_sum id m_rbuf_window (resized example_env (example_loaded\<lparr>m_image := None\<rparr>))
       = Inr (Some (1600, 1200))
   \<and> m_presenter example_small \<noteq> None
   \<and> m_scale example_small = float32 (7 / 10)
   \<and> map_sum id m_image (resized example_env example_small) = Inr (Some (560, 420))
   \<and> map_sum id m_rbuf_window (resized example_env example_small) = Inr (Some (560, 420))
   \<and> float_to_int (of_int (getWidth (juce example_env)) * m_scale example_small) = 559
   \<and> m_presenter example_fine \<noteq> None
   \<and> map_sum id m_image (resized narrow_env example_fine) = Inr (Some (116, 65))
   \<and> float_to_int (fmul (float_of_int (getWidth (juce narrow_env))) (m_scale example_fine)) = 117
   \<and> m_presenter (LomseScoreComponent example_env) = None
   \<and> map_sum id m_image (resized example_env (LomseScoreComponent example_env)) = Inr None"
proof -
  have h: "m_presenter (example_loaded\<lparr>m_image := None\<rparr>) \<noteq> None"
    by (simp add: example_loaded_simps)
  have sc: "m_scale (example_loaded\<lparr>m_image := None\<rparr>) = 2"
    by (simp add: example_loaded_simps)
  from resized_recreates_bitmap_when_loaded [of "example_loaded\<lparr>m_image := None\<rparr>" example_env] h
  obtain s' where s': "resized example_env (example_loaded\<lparr>m_image := None\<rparr>) = Inr s'"
    "m_image s' = Some (float_to_int (fmul (float_of_int (getWidth (juce example_env))) (float32 (m_scale (example_loaded\<lparr>m_image := None\<rparr>)))),
                        float_to_int (fmul (float_of_int (getHeight (juce example_env))) (float32 (m_scale (example_loaded\<lparr>m_image := None\<rparr>)))))"
    "m_rbuf_window s' = m_image s'"
    by blast
  have i: "m_image s' = Some (1600, 1200)"
    unfolding s'(2) sc by (simp add: example_env_simps float_examples float_to_int_def)
  have a: "map_sum id m_image (resized example_env (example_loaded\<lparr>m_image := None\<rparr>))
       = Inr (Some (1600, 1200))"
    "map_sum id m_rbuf_window (resized example_env (example_loaded\<lparr>m_image := None\<rparr>))
       = Inr (Some (1600, 1200))"
    using s'(1,3) i by simp_all
  have h2: "m_presenter example_small \<noteq> None"
    by (simp add: example_small_def example_loaded_simps)
  have sc2: "m_scale example_small = 11744051 / 16777216"
    by (simp add: example_small_def)
  from resized_recreates_bitmap_when_loaded [of example_small example_env] h2
  obtain u' where u': "resized example_env example_small = Inr u'"
    "m_image u' = Some (float_to_int (fmul (float_of_int (getWidth (juce example_env))) (float32 (m_scale example_small))),
                        float_to_int (fmul (float_of_int (getHeight (juce example_env))) (float32 (m_scale example_small))))"
    "m_rbuf_window u' = m_image u'"
    by blast
  have j: "m_image u' = Some (560, 420)"
    unfolding u'(2) sc2 by (simp add: example_env_simps float_examples float_to_int_def)
  have b: "map_sum id m_image (resized example_env example_small) = Inr (Some (560, 420))"
    "map_sum id m_rbuf_window (resized example_env example_small) = Inr (Some (560, 420))"
    using u'(1,3) j by simp_all
  have c: "m_scale example_small = float32 (7 / 10)"
    by (simp add: sc2 float_examples)
  have d: "float_to_int (of_int (getWidth (juce example_env)) * m_scale example_small) = 559"
    unfolding sc2 example_env_simps by (simp only: of_int_numeral float_examples)
  have h3: "m_presenter example_fine \<noteq> None"
    by (simp add: example_fine_def example_loaded_simps)
  have sc3: "m_scale example_fine = 13 / 20"
    by (simp add: example_fine_def)
  have wh: "getWidth (juce narrow_env) = 180" "getHeight (juce narrow_env) = 100"
    by (simp_all add: narrow_env_def)
  from resized_recreates_bitmap_when_loaded [of example_fine narrow_env] h3
  obtain v' where v': "resized narrow_env example_fine = Inr v'"
    "m_image v' = Some (float_to_int (fmul (float_of_int (getWidth (juce narrow_env))) (float32 (m_scale example_fine))),
                        float_to_int (fmul (float_of_int (getHeight (juce narrow_env))) (float32 (m_scale example_fine))))"
    by blast
  have k: "m_image v' = Some (116, 65)"
    unfolding v'(2) sc3 wh by (simp only: float_examples)
  have f: "map_sum id m_image (resized narrow_env example_fine) = Inr (Some (116, 65))"
    using v'(1) k by simp
  have g: "float_to_int (fmul (float_of_int (getWidth (juce narrow_env))) (m_scale example_fine)) = 117"
    unfolding sc3 wh by (simp only: float_examples)
  have n: "m_presenter (LomseScoreComponent example_env) = None"
    by (simp add: LomseScoreComponent_def Let_def)
  have m: "m_image (LomseScoreComponent example_env) = None"
    by (simp add: LomseScoreComponent_def Let_def)
  from resized_recreates_bitmap_when_loaded [of "LomseScoreComponent example_env" example_env] n
  obtain t' where t': "resized example_env (LomseScoreComponent example_env) = Inr t'"
    "m_image t' = m_image (LomseScoreComponent example_env)"
    by blast
  then have e: "map_sum id m_image (resized example_env (LomseScoreComponent example_env)) = Inr None"
    using m by simp
  have h1: "m_presenter example_loaded \<noteq> None" by (simp add: example_loaded_simps)
  from h1 a h2 c b d h3 f g n e show ?thesis by blast
qed

text \<open>
  C5, as stated, fails: resizing a newly constructed component, in a view of 800 by 600,
  allocates no bitmap and attaches none.
\<close>

theorem resized_without_document_counterexample:
  "getWidth (juce example_env) = 800 \<and> getHeight (juce example_env) = 600
   \<and> map_sum id m_image (resized example_env (LomseScoreComponent example_env)) = Inr None
   \<and> map_sum id m_rbuf_window (resized example_env (LomseScoreComponent example_env)) = Inr None
   \<and> map_sum id engine_calls (resized example_env (LomseScoreComponent example_env))
       = Inr (engine_calls (LomseScoreComponent example_env))"
proof -
  have a: "m_presenter (LomseScoreComponent example_env) = None"
    by (simp add: LomseScoreComponent_def Let_def)
  have b: "m_image (LomseScoreComponent example_env) = None"
    "m_rbuf_window (LomseScoreComponent example_env) = None"
    by (simp_all add: LomseScoreComponent_def Let_def)
  show ?thesis
    by (simp add: resized_unloaded[OF a] b example_env_simps)
qed

text \<open>
  C6. With a document loaded, whenever the loop or the loop-start position the controller
  reports differs from the cached one, or recreation is forced, \<open>UpdateABMarks\<close> takes over
  the reported values, removes the old start mark and the old end mark from the interactor,
  and only then adds new marks: a start mark exactly when the measure of the loop begin or
  of the loop start is positive, an end mark exactly when the measure of the loop end is
  positive; a mark that is not created keeps its old pointer. \<open>LoadDocument\<close> resets the
  cached loop, the member \<open>loop\<close>, to zeros in all four fields, and it returns whenever the
  engine hands back a presenter.
\<close>

theorem loop_marks_recreated:
  "(m_presenter s \<noteq> None
      \<and> (loop s \<noteq> GetLoop (piano e) \<or> loopStart s \<noteq> GetLoopStart (piano e) \<or> force) \<longrightarrow>
      (\<exists>s' cs. UpdateABMarks e force s = Inr s'
         \<and> engine_calls s' = engine_calls s @ [GetInteractor, GetDocument,
              RemoveMark (loopStartMark s), RemoveMark (loopEndMark s)] @ cs
         \<and> loop s' = GetLoop (piano e) \<and> loopStart s' = GetLoopStart (piano e)
         \<and> (if 0 < p_measure (l_begin (GetLoop (piano e)))
                 \<or> 0 < p_measure (GetLoopStart (piano e))
             then \<exists>m. loopStartMark s' = Some m \<and> MarkType m k_mark_open_rounded \<in> set cs
             else loopStartMark s' = loopStartMark s
                  \<and> (\<forall>m. MarkType m k_mark_open_rounded \<notin> set cs))
         \<and> (if 0 < p_measure (l_end (GetLoop (piano e)))
             then \<exists>m. loopEndMark s' = Some m \<and> MarkType m k_mark_close_rounded \<in> set cs
             else loopEndMark s' = loopEndMark s
                  \<and> (\<forall>m. MarkType m k_mark_close_rounded \<notin> set cs))
         \<and> length (filter is_add_mark cs) =
              (if 0 < p_measure (l_begin (GetLoop (piano e)))
                  \<or> 0 < p_measure (GetLoopStart (piano e))
               then 1 else 0)
              + (if 0 < p_measure (l_end (GetLoop (piano e))) then 1 else 0)))
   \<and> (\<forall>d'. LoadDocument e filename d = Inr d' \<longrightarrow> loop d' = Loop0)
   \<and> ((if filename \<noteq> [] then open_document (lomse e) filename else new_document (lomse e))
         \<noteq> None \<longrightarrow> (\<exists>d'. LoadDocument e filename d = Inr d'))"
  using UpdateABMarks_changed[of s e force] LoadDocument_Inr(2)[of e filename d]
    LoadDocument_returns[of filename e d]
  by blast

theorem loop_marks_recreated_witness:
  "m_presenter example_loaded \<noteq> None
   \<and> loop example_loaded \<noteq> GetLoop (piano example_env)
   \<and> map_sum id loop (UpdateABMarks example_env False example_loaded)
       = Inr (GetLoop (piano example_env))
   \<and> map_sum id loopStartMark (UpdateABMarks example_env False example_loaded) \<noteq> Inr None
   \<and> map_sum id loopEndMark (UpdateABMarks example_env False example_loaded) \<noteq> Inr None
   \<and> open_document (lomse example_env) ''/Midi/song.xml'' \<noteq> None
   \<and> map_sum id loop (LoadDocument example_env ''/Midi/song.xml'' example_loaded) = Inr Loop0"
proof -
  have h1: "m_presenter example_loaded \<noteq> None" by (simp add: example_loaded_simps)
  have h2: "loop example_loaded \<noteq> GetLoop (piano example_env)"
    by (simp add: example_loaded_simps example_env_simps Loop0_def Position0_def)
  have h3: "0 < p_measure (l_begin (GetLoop (piano example_env)))
            \<or> 0 < p_measure (GetLoopStart (piano example_env))"
    by (simp add: example_env_simps)
  have h4: "0 < p_measure (l_end (GetLoop (piano example_env)))"
    by (simp add: example_env_simps)
  have h5: "(if ''/Midi/song.xml'' \<noteq> [] then open_document (lomse example_env) ''/Midi/song.xml''
             else new_document (lomse example_env)) \<noteq> None"
    by (simp add: example_env_def)
  note t = loop_marks_recreated [of example_loaded example_env False
      "''/Midi/song.xml''" example_loaded]
  from t h1 h2 obtain s' cs where s':
    "UpdateABMarks example_env False example_loaded = Inr s'"
    "loop s' = GetLoop (piano example_env)"
    "if 0 < p_measure (l_begin (GetLoop (piano example_env)))
                 \<or> 0 < p_measure (GetLoopStart (piano example_env))
             then \<exists>m. loopStartMark s' = Some m \<and> MarkType m k_mark_open_rounded \<in> set cs
             else loopStartMark s' = loopStartMark example_loaded
                  \<and> (\<forall>m. MarkType m k_mark_open_rounded \<notin> set cs)"
    "if 0 < p_measure (l_end (GetLoop (piano example_env)))
             then \<exists>m. loopEndMark s' = Some m \<and> MarkType m k_mark_close_rounded \<in> set cs
             else loopEndMark s' = loopEndMark example_loaded
                  \<and> (\<forall>m. MarkType m k_mark_close_rounded \<notin> set cs)"
    by blast
  from t h5 obtain d' where d': "LoadDocument example_env ''/Midi/song.xml'' example_loaded = Inr d'"
    by blast
  with t have d0: "loop d' = Loop0" by blast
  have h6: "open_document (lomse example_env) ''/Midi/song.xml'' \<noteq> None"
    by (simp add: example_env_def)
  from s'(3) h3 have a: "loopStartMark s' \<noteq> None" by auto
  from s'(4) h4 have b: "loopEndMark s' \<noteq> None" by auto
  show ?thesis using h1 h2 h6 s'(1,2) a b d' d0 by simp
qed

text \<open>
  C7. When the file chooser returns a URL, \<open>buttonClicked\<close> does not load the score: it
  posts \<open>LoadScore\<close> of that URL with \<open>callAsync\<close> and returns, with the presenter and the
  engine untouched; the message loop runs the posted call afterwards. When the dialog is
  cancelled, \<open>buttonClicked\<close> changes nothing and posts nothing.
\<close>

theorem buttonClicked_posts_load:
  "(browseForFileToOpen (juce e) = Some url \<longrightarrow>
      buttonClicked e s = Inr (s\<lparr>async_calls := async_calls s @ [AsyncLoadScore url]\<rparr>))
   \<and> (browseForFileToOpen (juce e) = None \<longrightarrow> buttonClicked e s = Inr s)
   \<and> (\<forall>s'. buttonClicked e s = Inr s' \<longrightarrow>
        engine_calls s' = engine_calls s \<and> m_presenter s' = m_presenter s)
   \<and> (async_calls s = AsyncLoadScore url # cs \<longrightarrow>
        run_async e' s = LoadScore_URL e' url (s\<lparr>async_calls := cs\<rparr>))"
  by (auto simp: buttonClicked_def callAsync_def run_async_def split: option.splits)

theorem buttonClicked_posts_load_witness:
  "browseForFileToOpen (juce example_env) = Some ''/Midi/other.musicxml''
   \<and> buttonClicked example_env example_loaded
       = Inr (example_loaded\<lparr>async_calls := [AsyncLoadScore ''/Midi/other.musicxml'']\<rparr>)
   \<and> run_async example_env (example_loaded\<lparr>async_calls := [AsyncLoadScore ''/Midi/other.musicxml'']\<rparr>)
       = LoadScore_URL example_env ''/Midi/other.musicxml'' (example_loaded\<lparr>async_calls := []\<rparr>)
   \<and> browseForFileToOpen (juce no_score_env) = None
   \<and> buttonClicked no_score_env example_loaded = Inr example_loaded"
proof -
  have h1: "browseForFileToOpen (juce example_env) = Some ''/Midi/other.musicxml''"
    by (simp add: example_env_simps)
  have h2: "browseForFileToOpen (juce no_score_env) = None"
    by (simp add: no_score_env_def)
  have q: "async_calls example_loaded = []"
    by (simp add: example_loaded_def LomseScoreComponent_def Let_def)
  have h3: "async_calls (example_loaded\<lparr>async_calls := [AsyncLoadScore ''/Midi/other.musicxml'']\<rparr>)
            = AsyncLoadScore ''/Midi/other.musicxml'' # []"
    by simp
  from buttonClicked_posts_load [of example_env "''/Midi/other.musicxml''" example_loaded] h1
  have a: "buttonClicked example_env example_loaded
       = Inr (example_loaded\<lparr>async_calls := [AsyncLoadScore ''/Midi/other.musicxml'']\<rparr>)"
    by (simp add: q)
  from buttonClicked_posts_load [of no_score_env url example_loaded] h2
  have b: "buttonClicked no_score_env example_loaded = Inr example_loaded"
    by blast
  from buttonClicked_posts_load [of example_env "''/Midi/other.musicxml''"
      "example_loaded\<lparr>async_calls := [AsyncLoadScore ''/Midi/other.musicxml'']\<rparr>" "[]" example_env] h3
  have c: "run_async example_env (example_loaded\<lparr>async_calls := [AsyncLoadScore ''/Midi/other.musicxml'']\<rparr>)
       = LoadScore_URL example_env ''/Midi/other.musicxml'' (example_loaded\<lparr>async_calls := []\<rparr>)"
    by simp
  show ?thesis using h1 h2 a b c by blast
qed

text \<open>
  C8. For every playback position (measure, beat) the controller reports, \<open>UpdateTempoLine\<close>
  hands exactly (measure - 1, beat - 1) to the engine, with the score id: to
  \<open>move_tempo_line_and_scroll_if_necessary\<close> when the scroll flag is set and to
  \<open>move_tempo_line\<close> otherwise. With a document loaded the call is made; and whenever
  \<open>UpdateTempoLine\<close> returns, this is the one operation it has added after fetching the
  interactor.
\<close>

theorem UpdateTempoLine_position:
  "(m_presenter s \<noteq> None \<longrightarrow> (\<exists>s'. UpdateTempoLine e scroll s = Inr s'))
   \<and> (\<forall>s'. UpdateTempoLine e scroll s = Inr s' \<longrightarrow>
        engine_calls s' = engine_calls s @
          [GetInteractor,
           if scroll
           then MoveTempoLineAndScrollIfNecessary (m_scoreId s)
                  (p_measure (GetPosition (piano e)) - 1) (p_beat (GetPosition (piano e)) - 1)
           else MoveTempoLine (m_scoreId s)
                  (p_measure (GetPosition (piano e)) - 1) (p_beat (GetPosition (piano e)) - 1)])"
  by (auto simp: UpdateTempoLine_def Let_def split: option.splits)

theorem UpdateTempoLine_position_witness:
  "m_presenter example_loaded \<noteq> None
   \<and> map_sum id engine_calls (UpdateTempoLine example_env True example_loaded)
       = Inr (engine_calls example_loaded @ [GetInteractor, MoveTempoLineAndScrollIfNecessary 7 2 1])
   \<and> map_sum id engine_calls (UpdateTempoLine example_env False example_loaded)
       = Inr (engine_calls example_loaded @ [GetInteractor, MoveTempoLine 7 2 1])"
proof -
  have h: "m_presenter example_loaded \<noteq> None" by (simp add: example_loaded_simps)
  from UpdateTempoLine_position [of example_loaded example_env True] h
  obtain s1 where s1: "UpdateTempoLine example_env True example_loaded = Inr s1"
    "engine_calls s1 = engine_calls example_loaded @
       [GetInteractor, MoveTempoLineAndScrollIfNecessary (m_scoreId example_loaded)
          (p_measure (GetPosition (piano example_env)) - 1)
          (p_beat (GetPosition (piano example_env)) - 1)]"
    by auto
  from UpdateTempoLine_position [of example_loaded example_env False] h
  obtain s2 where s2: "UpdateTempoLine example_env False example_loaded = Inr s2"
    "engine_calls s2 = engine_calls example_loaded @
       [GetInteractor, MoveTempoLine (m_scoreId example_loaded)
          (p_measure (GetPosition (piano example_env)) - 1)
          (p_beat (GetPosition (piano example_env)) - 1)]"
    by auto
  show ?thesis using h s1 s2 by (simp add: example_loaded_simps example_env_simps)
qed

text \<open>
  C9. For every update-viewport event, the viewport handed back to the engine has x = 0 and
  y = max (reported y - 19) 0, which is never negative. With a document loaded the call is
  made; and whenever \<open>LomseEvent\<close> returns, this is the one operation it has added after
  fetching the interactor.
\<close>

theorem LomseEvent_viewport:
  "(m_presenter s \<noteq> None \<longrightarrow>
      (\<exists>s'. LomseEvent (UpdateViewportEvent x y) s = Inr s'))
   \<and> (\<forall>s'. LomseEvent (UpdateViewportEvent x y) s = Inr s' \<longrightarrow>
        engine_calls s' = engine_calls s @ [GetInteractor, NewViewport 0 (max (y - 19) 0)])
   \<and> 0 \<le> max (y - 19) 0"
  by (auto simp: LomseEvent_def Let_def split: option.splits)

theorem LomseEvent_viewport_witness:
  "m_presenter example_loaded \<noteq> None
   \<and> map_sum id engine_calls (LomseEvent (UpdateViewportEvent 7 100) example_loaded)
       = Inr (engine_calls example_loaded @ [GetInteractor, NewViewport 0 81])
   \<and> map_sum id engine_calls (LomseEvent (UpdateViewportEvent 7 5) example_loaded)
       = Inr (engine_calls example_loaded @ [GetInteractor, NewViewport 0 0])"
proof -
  have h: "m_presenter example_loaded \<noteq> None" by (simp add: example_loaded_simps)
  from LomseEvent_viewport [of example_loaded 7 100] h
  obtain s1 where s1: "LomseEvent (UpdateViewportEvent 7 100) example_loaded = Inr s1"
    "engine_calls s1 = engine_calls example_loaded @ [GetInteractor, NewViewport 0 (max (100 - 19) 0)]"
    by blast
  from LomseEvent_viewport [of example_loaded 7 5] h
  obtain s2 where s2: "LomseEvent (UpdateViewportEvent 7 5) example_loaded = Inr s2"
    "engine_calls s2 = engine_calls example_loaded @ [GetInteractor, NewViewport 0 (max (5 - 19) 0)]"
    by blast
  show ?thesis using h s1 s2 by simp
qed

text \<open>
  C10. \<open>GetMouseFlags\<close> depends on the modifier state of the mouse event only; its result
  is the bitwise OR of the flags of the buttons and keys that are down, and 0 when none is
  down.
\<close>

theorem GetMouseFlags_is_or_of_flags_down:
  "GetMouseFlags e event = or_all (flags_down e (mods event))
   \<and> (mods event = mods event' \<longrightarrow> GetMouseFlags e event = GetMouseFlags e event')
   \<and> (\<not> isLeftButtonDown (mods event) \<and> \<not> isRightButtonDown (mods event)
        \<and> \<not> isMiddleButtonDown (mods event) \<and> \<not> isShiftDown (mods event)
        \<and> \<not> isAltDown (mods event) \<and> \<not> isCtrlDown (mods event)
      \<longrightarrow> GetMouseFlags e event = 0)"
  by (simp add: GetMouseFlags_def or_all_def flags_down_def Let_def ac_simps)

theorem GetMouseFlags_witness:
  "mods example_click = mods (example_click\<lparr>getScreenY := 99\<rparr>)
   \<and> GetMouseFlags example_env example_click
       = GetMouseFlags example_env (example_click\<lparr>getScreenY := 99\<rparr>)
   \<and> GetMouseFlags example_env example_click = 9
   \<and> or_all (flags_down example_env (mods example_click)) = 9
   \<and> \<not> isLeftButtonDown (mods example_hover) \<and> \<not> isRightButtonDown (mods example_hover)
   \<and> \<not> isMiddleButtonDown (mods example_hover) \<and> \<not> isShiftDown (mods example_hover)
   \<and> \<not> isAltDown (mods example_hover) \<and> \<not> isCtrlDown (mods example_hover)
   \<and> GetMouseFlags example_env example_hover = 0"
proof -
  have fl: "flags_down example_env (mods example_click) = [1, 8]"
    by (simp add: example_click_def flags_down_def example_env_def)
  have a: "or_all (flags_down example_env (mods example_click)) = 9"
    unfolding fl by (simp add: or_all_def)
  have b: "mods example_click = mods (example_click\<lparr>getScreenY := 99\<rparr>)"
    by simp
  have c: "\<not> isLeftButtonDown (mods example_hover) \<and> \<not> isRightButtonDown (mods example_hover)
     \<and> \<not> isMiddleButtonDown (mods example_hover) \<and> \<not> isShiftDown (mods example_hover)
     \<and> \<not> isAltDown (mods example_hover) \<and> \<not> isCtrlDown (mods example_hover)"
    by (simp add: example_hover_def)
  note t1 = GetMouseFlags_is_or_of_flags_down
            [of example_env example_click "example_click\<lparr>getScreenY := 99\<rparr>"]
  note t2 = GetMouseFlags_is_or_of_flags_down [of example_env example_hover example_hover]
  from t1 b have d: "GetMouseFlags example_env example_click
       = GetMouseFlags example_env (example_click\<lparr>getScreenY := 99\<rparr>)" by blast
  from t1 a have e: "GetMouseFlags example_env example_click = 9" by metis
  from t2 c have f: "GetMouseFlags example_env example_hover = 0" by blast
  from a b c d e f show ?thesis by blast
qed

end
